theory Spec2Isabelle
  imports Complex_Main
begin

section \<open>RecyclerListView: the coordinator component\<close>

text \<open>
  A shallow embedding of \<^verbatim>\<open>src/core/RecyclerListView.tsx\<close>. The class is a
  record of its instance fields; every method is a function that takes the
  instance and returns it updated. A JavaScript \<^verbatim>\<open>throw\<close> is the outcome
  \<open>Throw\<close>, which carries the instance as the statements before the throw left
  it. Numbers that measure pixels are \<open>real\<close>, item indexes are \<open>int\<close>
  (for these \<^verbatim>\<open>NaN\<close> and the infinities are not represented; a layout type
  can be \<^verbatim>\<open>NaN\<close>, see \<open>LayoutType\<close>).

  Naming: a member \<^verbatim>\<open>this._name\<close> is written \<open>this_name\<close> (an Isabelle
  name cannot begin with an underscore); public members keep their names.
\<close>

subsection \<open>Geometry, layout types, errors\<close>

record Dimension =
  height :: real
  width :: real

text \<open>A \<^verbatim>\<open>Rect\<close> is passed where a \<^verbatim>\<open>Dimension\<close> is expected
  (\<^verbatim>\<open>_checkExpectedDimensionDiscrepancy\<close>), so it extends it.\<close>

record Rect = Dimension +
  x :: real
  y :: real

text \<open>A \<^verbatim>\<open>Point\<close> \<^verbatim>\<open>{x, y}\<close> is the pair \<open>(x, y)\<close>.\<close>

type_synonym Point = "real \<times> real"

text \<open>What \<^verbatim>\<open>getLayoutTypeForIndex\<close> can hand back at run time: the declared
  \<^verbatim>\<open>string | number\<close>, or \<^verbatim>\<open>undefined\<close> / \<^verbatim>\<open>null\<close>. A number is \<^verbatim>\<open>NaN\<close>
  (\<open>TNaN\<close>) or a number proper (\<open>TNumber\<close>; an infinity counts as a number
  other than 0, which is all the code asks of it).\<close>

datatype LayoutType = TUndefined | TNull | TString string | TNumber real | TNaN

text \<open>JavaScript truthiness of such a value (the operand of \<^verbatim>\<open>!type\<close>).\<close>

fun truthy :: "LayoutType \<Rightarrow> bool" where
  "truthy TUndefined = False"
| "truthy TNull = False"
| "truthy (TString str) = (str \<noteq> [])"
| "truthy (TNumber n) = (n \<noteq> 0)"
| "truthy TNaN = False"

text \<open>The three \<^verbatim>\<open>RecyclerListViewExceptions\<close> the file throws, the
  \<^verbatim>\<open>TypeError\<close> of a member access on \<^verbatim>\<open>undefined\<close> or \<^verbatim>\<open>null\<close> (or of
  calling an absent callback), the \<^verbatim>\<open>SyntaxError\<close> of \<^verbatim>\<open>JSON.parse\<close>, and the
  layout manager's \<^verbatim>\<open>OutOfRange\<close>.\<close>

datatype error =
    layoutException
  | unresolvedDependenciesException
  | itemTypeNullException
  | TypeError
  | SyntaxError
  | OutOfRange

datatype ('a, 's) outcome = Return 'a 's | Throw error 's

definition andThen ::
  "('a, 's) outcome \<Rightarrow> ('a \<Rightarrow> 's \<Rightarrow> ('b, 's) outcome) \<Rightarrow> ('b, 's) outcome" where
  "andThen m f = (case m of Return a s \<Rightarrow> f a s | Throw e s \<Rightarrow> Throw e s)"

subsection \<open>Props and the objects they hold\<close>

text \<open>Objects compared with \<^verbatim>\<open>!==\<close> carry a reference number (\<open>lp_ref\<close>,
  \<open>dp_ref\<close>): two references are the same object iff the numbers agree.
  \<^verbatim>\<open>setLayoutForType(type, dim, index)\<close> writes into \<^verbatim>\<open>dim\<close>; here it returns
  the dimension written.\<close>

record LayoutProvider =
  lp_ref :: nat
  getLayoutTypeForIndex :: "int \<Rightarrow> LayoutType"
  setLayoutForType :: "LayoutType \<Rightarrow> Dimension \<Rightarrow> int \<Rightarrow> Dimension"

record 'd DataProvider =
  dp_ref :: nat
  getSize :: int
  getDataForIndex :: "int \<Rightarrow> 'd"
  getFirstIndexToProcessInternal :: int

text \<open>The context provider is the caller's key-value store: \<^verbatim>\<open>save\<close> writes a
  number or a string under a key, \<^verbatim>\<open>get\<close> reads it back (\<^verbatim>\<open>undefined\<close> is
  \<open>None\<close>), \<^verbatim>\<open>remove\<close> deletes it. An empty unique key stands for every
  falsy key.\<close>

datatype Stored = SNumber real | SString string

record ContextProvider =
  getUniqueKey :: string
  entries :: "string \<rightharpoonup> Stored"

definition save :: "string \<Rightarrow> Stored \<Rightarrow> ContextProvider \<Rightarrow> ContextProvider" where
  "save k v cp = cp\<lparr>entries := (entries cp)(k \<mapsto> v)\<rparr>"

definition get :: "string \<Rightarrow> ContextProvider \<Rightarrow> Stored option" where
  "get k cp = entries cp k"

definition remove :: "string \<Rightarrow> ContextProvider \<Rightarrow> ContextProvider" where
  "remove k cp = cp\<lparr>entries := (entries cp)(k := None)\<rparr>"

text \<open>The props the modelled methods read. A callback prop is the flag
  "the caller passed one"; its calls are recorded in the instance
  (\<open>onScrollCalls\<close>, \<open>onEndReachedCalls\<close>, \<open>onVisibleIndexesChangedCalls\<close>).\<close>

type_synonym ScrollEvent = "real \<times> real"

record 'd RecyclerListViewProps =
  layoutProvider :: "LayoutProvider option"
  dataProvider :: "'d DataProvider option"
  contextProvider :: "ContextProvider option"
  renderAheadOffset :: real
  isHorizontal :: bool
  onScroll :: bool
  onEndReached :: bool
  onEndReachedThreshold :: real
  onVisibleIndexesChanged :: bool
  initialOffset :: real
  initialRenderIndex :: int
  disableRecycling :: bool
  forceNonDeterministicRendering :: bool

record RenderStackParams =
  params_initialOffset :: real
  params_initialRenderIndex :: int
  params_isHorizontal :: bool
  params_itemCount :: int
  params_renderAheadOffset :: real

record RenderStackItem =
  key :: string
  dataIndex :: "int option"

text \<open>The render stack is an object iterated with \<^verbatim>\<open>for ... in\<close>: its
  entries in iteration order.\<close>

type_synonym RenderStack = "(string \<times> RenderStackItem) list"

subsection \<open>The collaborators whose code is not in the file\<close>

text \<open>
  \<^verbatim>\<open>VirtualRenderer\<close>, the \<^verbatim>\<open>LayoutManager\<close> and the \<^verbatim>\<open>ViewabilityTracker\<close>
  it holds, and \<^verbatim>\<open>JSON\<close> are used by the component but defined elsewhere. Their
  joint state is the type parameter \<open>'v\<close> and each method the component calls is
  a field of \<open>Collaborators\<close>, taken as a parameter by every function below.

  The component hands the renderer its own \<^verbatim>\<open>_params\<close> and \<^verbatim>\<open>_layout\<close> objects;
  here the renderer receives their values at the call, and a method it is
  given no argument for (\<open>refresh\<close>) sees a later change of them only through
  the next \<open>setParamsAndDimensions\<close>.

  The renderer calls back into the component: \<^verbatim>\<open>_renderStackWhenReady\<close> and the
  scroll-anchor setter are handed to its constructor, \<^verbatim>\<open>_onVisibleItemsChanged\<close>
  is attached as its listener.

  The methods that compute (\<open>init\<close>, \<open>startViewabilityTracker\<close>, \<open>refresh\<close>,
  \<open>refreshWithAnchor\<close>, \<open>setLayoutManager\<close> with the construction of the layout
  manager, \<open>reLayoutFromIndex\<close>) answer with a \<open>reply\<close>: the callbacks they
  made, in order, the error they threw, if any, and the state they left. The
  methods that store what they are given or read what is stored are taken to
  return.
\<close>

datatype Callback =
    RenderStackReady RenderStack
  | ScrollAnchor Point
  | VisibleItemsChanged "int list" "int list" "int list"

text \<open>\<^verbatim>\<open>new LayoutManager(layoutProvider, dimensions, isHorizontal, cachedLayouts)\<close>.\<close>

datatype LayoutManager =
  LayoutManager "LayoutProvider option" Dimension bool "Rect list option"

datatype 'v reply = Reply "Callback list" "error option" 'v

definition raisedBy :: "'v reply \<Rightarrow> error option" where
  "raisedBy r = (case r of Reply cs e v \<Rightarrow> e)"

record 'v Collaborators =
  VirtualRenderer_new :: "bool \<Rightarrow> 'v"
  setParamsAndDimensions :: "RenderStackParams \<Rightarrow> Dimension \<Rightarrow> 'v \<Rightarrow> 'v"
  setLayoutManager :: "LayoutManager \<Rightarrow> 'v \<Rightarrow> 'v reply"
  setLayoutProvider :: "LayoutProvider option \<Rightarrow> 'v \<Rightarrow> 'v"
  attachVisibleItemsListener :: "'v \<Rightarrow> 'v"
  removeVisibleItemsListener :: "'v \<Rightarrow> 'v"
  init :: "'v \<Rightarrow> 'v reply"
  getInitialOffset :: "'v \<Rightarrow> Point"
  startViewabilityTracker :: "'v \<Rightarrow> 'v reply"
  refresh :: "'v \<Rightarrow> 'v reply"
  refreshWithAnchor :: "'v \<Rightarrow> 'v reply"
  updateOffset :: "real \<Rightarrow> real \<Rightarrow> 'v \<Rightarrow> Callback list \<times> 'v"
  getLayoutDimension :: "'v \<Rightarrow> Dimension"
  getLayoutManager :: "'v \<Rightarrow> bool"
  getLayouts :: "'v \<Rightarrow> Rect list"
  getOffsetForIndex :: "int \<Rightarrow> 'v \<Rightarrow> (error + Point) \<times> 'v"
  reLayoutFromIndex :: "int \<Rightarrow> int \<Rightarrow> 'v \<Rightarrow> 'v reply"
  overrideLayout :: "int \<Rightarrow> Dimension \<Rightarrow> 'v \<Rightarrow> 'v"
  setMaxBounds :: "Dimension \<Rightarrow> 'v \<Rightarrow> Dimension"
  getViewabilityTracker :: "'v \<Rightarrow> bool"
  getLastOffset :: "'v \<Rightarrow> real"
  JSON_stringify :: "Rect list \<Rightarrow> string"
  JSON_parse :: "string \<Rightarrow> error + Rect list option"

text \<open>
  \<open>getLayoutManager\<close> and \<open>getViewabilityTracker\<close> tell whether the renderer
  holds the object (the truthiness the component tests); \<open>getLayouts\<close>,
  \<open>getOffsetForIndex\<close>, \<open>reLayoutFromIndex\<close>, \<open>overrideLayout\<close> and
  \<open>setMaxBounds\<close> are the layout manager's methods and \<open>getLastOffset\<close> the
  tracker's, on the state that holds them. \<open>getOffsetForIndex\<close> answers with
  the offset or the error it threw, and the state it left. \<open>updateOffset\<close>
  answers with the callbacks it made and the state it left (a callback it made
  can throw; the method itself is taken to return). \<open>setMaxBounds\<close>
  writes into the dimension it is given and returns it. \<open>JSON_stringify\<close> is
  \<^verbatim>\<open>JSON.stringify({layoutArray: l})\<close> and \<open>JSON_parse\<close> is
  \<^verbatim>\<open>JSON.parse(s).layoutArray\<close>.
\<close>

subsection \<open>The debouncer\<close>

text \<open>
  \<^verbatim>\<open>refreshRequestDebouncer\<close> (lines 49-51) is \<^verbatim>\<open>debounce\<close> of the library
  \<^verbatim>\<open>lodash-es\<close> applied to a function that runs the executable it is given,
  with no wait (0) and no options. The library is not part of the repository;
  it is modelled after its documentation: the option \<^verbatim>\<open>leading\<close> (default false)
  runs the function at the call that starts the timer, the option \<^verbatim>\<open>trailing\<close>
  (default true) runs it with the arguments of the last call when the timer
  expires, and a call made while the timer runs restarts the wait. Time itself
  is not modelled: there are two events, a call and the expiry of the timer (the
  wait has passed since the last call). The state is whether the timer runs and
  whether a call is waiting for the trailing edge.
\<close>

record Debounced =
  timerRuns :: bool
  callWaits :: bool

text \<open>A call of the debounced function: whether the function runs now, and
  the new state.\<close>

definition debounce_call :: "bool \<Rightarrow> bool \<Rightarrow> Debounced \<Rightarrow> bool \<times> Debounced" where
  "debounce_call leading trailing d =
     (if \<not> timerRuns d
      then (if leading then (True, \<lparr> timerRuns = True, callWaits = False \<rparr>)
            else (False, \<lparr> timerRuns = True, callWaits = True \<rparr>))
      else (False, d\<lparr>callWaits := True\<rparr>))"

text \<open>The timer expires: whether the function runs now, and the new state.\<close>

definition debounce_timerExpired :: "bool \<Rightarrow> bool \<Rightarrow> Debounced \<Rightarrow> bool \<times> Debounced" where
  "debounce_timerExpired leading trailing d =
     (if timerRuns d
      then (trailing \<and> callWaits d, \<lparr> timerRuns = False, callWaits = False \<rparr>)
      else (False, d))"

subsection \<open>The instance\<close>

record ('v, 'd) RecyclerListView =
  props :: "'d RecyclerListViewProps"
  renderStack :: RenderStack
  this_onEndReachedCalled :: bool
  this_virtualRenderer :: 'v
  this_initComplete :: bool
  this_relayoutReqIndex :: int
  this_params :: RenderStackParams
  this_layout :: Dimension
  this_pendingScrollToOffset :: "Point option"
  this_tempDim :: Dimension
  this_initialOffset :: real
  this_cachedLayouts :: "Rect list option"
  this_scrollComponent :: "(real \<times> real \<times> bool) list option"
  refreshRequestDebouncer :: Debounced
  newLayoutManagers :: "LayoutManager list"
  setStateCalls :: nat
  refreshRequests :: nat
  warnings :: nat
  onEndReachedCalls :: nat
  onScrollCalls :: "(ScrollEvent \<times> real \<times> real) list"
  onVisibleIndexesChangedCalls :: "(int list \<times> int list \<times> int list) list"

text \<open>
  \<open>renderStack\<close> is \<^verbatim>\<open>this.state.renderStack\<close>. \<open>this_scrollComponent\<close> is
  the scroll surface, when the ref is set: the \<^verbatim>\<open>scrollTo(x, y, animate)\<close>
  commands it has received. \<open>refreshRequestDebouncer\<close> is the state of the
  module's debouncer (one list is mounted at a time; every executable handed to
  it is this instance's \<^verbatim>\<open>setState(prevState => prevState)\<close>). The last seven
  fields record what the instance did
  to the outside: the layout managers it constructed (the arguments of each
  \<^verbatim>\<open>new LayoutManager\<close>, oldest first), \<^verbatim>\<open>setState\<close> calls, executables handed to
  \<^verbatim>\<open>refreshRequestDebouncer\<close>, \<^verbatim>\<open>console.warn\<close> calls, and the calls of the
  three callback props with their arguments.
\<close>

definition RecyclerListView_new ::
  "'v Collaborators \<Rightarrow> 'd RecyclerListViewProps \<Rightarrow> ('v, 'd) RecyclerListView" where
  "RecyclerListView_new c p =
     \<lparr> props = p,
       renderStack = [],
       this_onEndReachedCalled = False,
       this_virtualRenderer = VirtualRenderer_new c (\<not> disableRecycling p),
       this_initComplete = False,
       this_relayoutReqIndex = - 1,
       this_params = \<lparr> params_initialOffset = 0, params_initialRenderIndex = 0,
                       params_isHorizontal = False, params_itemCount = 0,
                       params_renderAheadOffset = 250 \<rparr>,
       this_layout = \<lparr> height = 0, width = 0 \<rparr>,
       this_pendingScrollToOffset = None,
       this_tempDim = \<lparr> height = 0, width = 0 \<rparr>,
       this_initialOffset = 0,
       this_cachedLayouts = None,
       this_scrollComponent = None,
       refreshRequestDebouncer = \<lparr> timerRuns = False, callWaits = False \<rparr>,
       newLayoutManagers = [],
       setStateCalls = 0,
       refreshRequests = 0,
       warnings = 0,
       onEndReachedCalls = 0,
       onScrollCalls = [],
       onVisibleIndexesChangedCalls = [] \<rparr>"

subsection \<open>Callbacks from the renderer\<close>

text \<open>\<^verbatim>\<open>setState\<close> is taken to write the state at once (React may batch it);
  each call is counted.\<close>

definition this_renderStackWhenReady ::
  "RenderStack \<Rightarrow> ('v, 'd) RecyclerListView \<Rightarrow> ('v, 'd) RecyclerListView" where
  "this_renderStackWhenReady stack s =
     s\<lparr>renderStack := stack, setStateCalls := Suc (setStateCalls s)\<rparr>"

text \<open>\<^verbatim>\<open>this.props.onVisibleIndexesChanged(all, now, notNow)\<close>: calling an absent
  prop is a \<^verbatim>\<open>TypeError\<close>.\<close>

definition this_onVisibleItemsChanged ::
  "int list \<Rightarrow> int list \<Rightarrow> int list \<Rightarrow> ('v, 'd) RecyclerListView
     \<Rightarrow> (unit, ('v, 'd) RecyclerListView) outcome" where
  "this_onVisibleItemsChanged allv now notNow s =
     (if onVisibleIndexesChanged (props s)
      then Return () (s\<lparr>onVisibleIndexesChangedCalls :=
             onVisibleIndexesChangedCalls s @ [(allv, now, notNow)]\<rparr>)
      else Throw TypeError s)"

fun deliver ::
  "Callback list \<Rightarrow> ('v, 'd) RecyclerListView \<Rightarrow> (unit, ('v, 'd) RecyclerListView) outcome" where
  "deliver [] s = Return () s"
| "deliver (RenderStackReady stack # cs) s = deliver cs (this_renderStackWhenReady stack s)"
| "deliver (ScrollAnchor offset # cs) s = deliver cs (s\<lparr>this_pendingScrollToOffset := Some offset\<rparr>)"
| "deliver (VisibleItemsChanged allv now notNow # cs) s =
     andThen (this_onVisibleItemsChanged allv now notNow s) (\<lambda>_. deliver cs)"

text \<open>A call of a collaborator's method that answers with a reply: the
  renderer's state is replaced, the callbacks run on the instance, and the
  error, if there is one, is thrown on to the caller of the component's method
  (the file has no \<^verbatim>\<open>try\<close>).\<close>

definition callRenderer ::
  "('v \<Rightarrow> 'v reply) \<Rightarrow> ('v, 'd) RecyclerListView
     \<Rightarrow> (unit, ('v, 'd) RecyclerListView) outcome" where
  "callRenderer m s =
     (case m (this_virtualRenderer s) of
        Reply cs e v \<Rightarrow>
          andThen (deliver cs (s\<lparr>this_virtualRenderer := v\<rparr>))
            (\<lambda>_ s1. case e of None \<Rightarrow> Return () s1 | Some err \<Rightarrow> Throw err s1))"

text \<open>The reply of a method that returns.\<close>

definition returned :: "Callback list \<times> 'v \<Rightarrow> 'v reply" where
  "returned r = Reply (fst r) None (snd r)"

subsection \<open>The methods\<close>

definition this_assertDependencyPresence ::
  "'d RecyclerListViewProps \<Rightarrow> ('v, 'd) RecyclerListView
     \<Rightarrow> (unit, ('v, 'd) RecyclerListView) outcome" where
  "this_assertDependencyPresence p s =
     (if dataProvider p = None \<or> layoutProvider p = None
      then Throw unresolvedDependenciesException s
      else Return () s)"

definition this_assertType ::
  "LayoutType \<Rightarrow> ('v, 'd) RecyclerListView \<Rightarrow> (unit, ('v, 'd) RecyclerListView) outcome" where
  "this_assertType type s =
     (if \<not> truthy type \<and> type \<noteq> TNumber 0
      then Throw itemTypeNullException s
      else Return () s)"

text \<open>The executable of \<^verbatim>\<open>_queueStateRefresh\<close>,
  \<^verbatim>\<open>this.setState((prevState) => prevState)\<close>: one state refresh.\<close>

definition stateRefresh :: "('v, 'd) RecyclerListView \<Rightarrow> ('v, 'd) RecyclerListView" where
  "stateRefresh s = s\<lparr>setStateCalls := Suc (setStateCalls s)\<rparr>"

text \<open>\<^verbatim>\<open>_queueStateRefresh\<close> calls the module's debouncer with the executable.
  The debouncer was made with no options: \<^verbatim>\<open>leading\<close> false, \<^verbatim>\<open>trailing\<close> true.
  The instance also counts the requests.\<close>

definition this_queueStateRefresh ::
  "('v, 'd) RecyclerListView \<Rightarrow> ('v, 'd) RecyclerListView" where
  "this_queueStateRefresh s =
     (case debounce_call False True (refreshRequestDebouncer s) of
        (runsNow, d) \<Rightarrow>
          let s1 = s\<lparr>refreshRequests := Suc (refreshRequests s), refreshRequestDebouncer := d\<rparr>
          in if runsNow then stateRefresh s1 else s1)"

text \<open>The host's timer of the module's debouncer expires.\<close>

definition refreshTimerExpired ::
  "('v, 'd) RecyclerListView \<Rightarrow> ('v, 'd) RecyclerListView" where
  "refreshTimerExpired s =
     (case debounce_timerExpired False True (refreshRequestDebouncer s) of
        (runsNow, d) \<Rightarrow>
          let s1 = s\<lparr>refreshRequestDebouncer := d\<rparr>
          in if runsNow then stateRefresh s1 else s1)"

definition this_refreshViewability ::
  "'v Collaborators \<Rightarrow> ('v, 'd) RecyclerListView \<Rightarrow> (unit, ('v, 'd) RecyclerListView) outcome" where
  "this_refreshViewability c s =
     andThen (callRenderer (refresh c) s) (\<lambda>_ s1. Return () (this_queueStateRefresh s1))"

definition getCurrentScrollOffset :: "'v Collaborators \<Rightarrow> ('v, 'd) RecyclerListView \<Rightarrow> real" where
  "getCurrentScrollOffset c s =
     (if getViewabilityTracker c (this_virtualRenderer s)
      then getLastOffset c (this_virtualRenderer s) else 0)"

text \<open>\<^verbatim>\<open>this._virtualRenderer\<close> is set by the constructor and never cleared,
  so the tests \<^verbatim>\<open>&& this._virtualRenderer\<close> (here) and \<^verbatim>\<open>if (this._virtualRenderer)\<close>
  (in \<^verbatim>\<open>componentWillUnmount\<close>) always pass.\<close>

definition this_processOnEndReached ::
  "'v Collaborators \<Rightarrow> ('v, 'd) RecyclerListView \<Rightarrow> ('v, 'd) RecyclerListView" where
  "this_processOnEndReached c s =
     (if onEndReached (props s)
      then
        let layout = getLayoutDimension c (this_virtualRenderer s);
            windowBound = (if isHorizontal (props s)
                           then width layout - width (this_layout s)
                           else height layout - height (this_layout s));
            lastOffset = (if getViewabilityTracker c (this_virtualRenderer s)
                          then getLastOffset c (this_virtualRenderer s) else 0)
        in if windowBound - lastOffset \<le> onEndReachedThreshold (props s)
           then (if \<not> this_onEndReachedCalled s
                 then s\<lparr>this_onEndReachedCalled := True,
                        onEndReachedCalls := Suc (onEndReachedCalls s)\<rparr>
                 else s)
           else s\<lparr>this_onEndReachedCalled := False\<rparr>
      else s)"

text \<open>The comparisons \<^verbatim>\<open>this.props.layoutProvider !== newProps.layoutProvider\<close>
  and the one of the data providers are by reference.\<close>

definition this_checkAndChangeLayouts ::
  "'v Collaborators \<Rightarrow> 'd RecyclerListViewProps \<Rightarrow> bool \<Rightarrow> ('v, 'd) RecyclerListView
     \<Rightarrow> (unit, ('v, 'd) RecyclerListView) outcome" where
  "this_checkAndChangeLayouts c newProps forceFullRender s =
     (let s1 = s\<lparr>this_params := (this_params s)\<lparr>params_isHorizontal := isHorizontal newProps\<rparr>\<rparr>
      in case dataProvider newProps of
           None \<Rightarrow> Throw TypeError s1
         | Some dp \<Rightarrow>
             let s2 = s1\<lparr>this_params := (this_params s1)\<lparr>params_itemCount := getSize dp\<rparr>\<rparr>;
                 s3 = s2\<lparr>this_virtualRenderer :=
                        setParamsAndDimensions c (this_params s2) (this_layout s2)
                          (this_virtualRenderer s2)\<rparr>
             in if forceFullRender
                   \<or> map_option lp_ref (layoutProvider (props s3))
                       \<noteq> map_option lp_ref (layoutProvider newProps)
                   \<or> isHorizontal (props s3) \<noteq> isHorizontal newProps
                then
                  (let lm = LayoutManager (layoutProvider newProps) (this_layout s3)
                              (isHorizontal newProps) None
                   in andThen
                        (callRenderer (setLayoutManager c lm)
                           (s3\<lparr>newLayoutManagers := newLayoutManagers s3 @ [lm]\<rparr>))
                        (\<lambda>_. callRenderer (refreshWithAnchor c)))
                else if map_option dp_ref (dataProvider (props s3)) \<noteq> Some (dp_ref dp)
                then (if getLayoutManager c (this_virtualRenderer s3)
                      then andThen
                             (callRenderer
                                (reLayoutFromIndex c (getFirstIndexToProcessInternal dp)
                                   (getSize dp)) s3)
                             (\<lambda>_. callRenderer (refresh c))
                      else Return () s3)
                else if this_relayoutReqIndex s3 \<ge> 0
                then (if getLayoutManager c (this_virtualRenderer s3)
                      then andThen
                             (callRenderer
                                (reLayoutFromIndex c (this_relayoutReqIndex s3) (getSize dp)) s3)
                             (\<lambda>_ s4. this_refreshViewability c
                                        (s4\<lparr>this_relayoutReqIndex := - 1\<rparr>))
                      else Return () s3)
                else Return () s3)"

definition this_initTrackers ::
  "'v Collaborators \<Rightarrow> ('v, 'd) RecyclerListView \<Rightarrow> (unit, ('v, 'd) RecyclerListView) outcome" where
  "this_initTrackers c s =
     andThen (this_assertDependencyPresence (props s) s) (\<lambda>_ s0.
       case dataProvider (props s0) of
         None \<Rightarrow> Throw TypeError s0
       | Some dp \<Rightarrow>
           let s1 = (if onVisibleIndexesChanged (props s0)
                     then s0\<lparr>this_virtualRenderer :=
                            attachVisibleItemsListener c (this_virtualRenderer s0)\<rparr>
                     else s0);
               s2 = s1\<lparr>this_params :=
                      \<lparr> params_initialOffset =
                          (if initialOffset (props s1) \<noteq> 0 then initialOffset (props s1)
                           else this_initialOffset s1),
                        params_initialRenderIndex = initialRenderIndex (props s1),
                        params_isHorizontal = isHorizontal (props s1),
                        params_itemCount = getSize dp,
                        params_renderAheadOffset = renderAheadOffset (props s1) \<rparr>\<rparr>;
               lm = LayoutManager (layoutProvider (props s2)) (this_layout s2)
                      (isHorizontal (props s2)) (this_cachedLayouts s2);
               s3 = s2\<lparr>this_virtualRenderer :=
                      setParamsAndDimensions c (this_params s2) (this_layout s2)
                        (this_virtualRenderer s2),
                    newLayoutManagers := newLayoutManagers s2 @ [lm]\<rparr>
           in andThen (callRenderer (setLayoutManager c lm) s3) (\<lambda>_ s4.
                andThen
                  (callRenderer (init c)
                     (s4\<lparr>this_virtualRenderer :=
                         setLayoutProvider c (layoutProvider (props s4))
                           (this_virtualRenderer s4)\<rparr>))
                  (\<lambda>_ s5.
                     let offset = getInitialOffset c (this_virtualRenderer s5)
                     in andThen
                          (if snd offset > 0 \<or> fst offset > 0
                           then Return () (s5\<lparr>this_pendingScrollToOffset := Some offset,
                                              setStateCalls := Suc (setStateCalls s5)\<rparr>)
                           else callRenderer (startViewabilityTracker c) s5)
                          (\<lambda>_ s6. Return () (s6\<lparr>this_cachedLayouts := None\<rparr>)))))"

definition this_onSizeChanged ::
  "'v Collaborators \<Rightarrow> Dimension \<Rightarrow> ('v, 'd) RecyclerListView
     \<Rightarrow> (unit, ('v, 'd) RecyclerListView) outcome" where
  "this_onSizeChanged c layout s =
     (let hasHeightChanged = (height (this_layout s) \<noteq> height layout);
          hasWidthChanged = (width (this_layout s) \<noteq> width layout);
          s1 = s\<lparr>this_layout := \<lparr> height = height layout, width = width layout \<rparr>\<rparr>
      in if height layout = 0 \<or> width layout = 0
         then Throw layoutException s1
         else if \<not> this_initComplete s1
         then andThen (this_initTrackers c (s1\<lparr>this_initComplete := True\<rparr>))
                (\<lambda>_ s2. Return () (this_processOnEndReached c s2))
         else if (hasHeightChanged \<and> hasWidthChanged)
                 \<or> (hasHeightChanged \<and> isHorizontal (props s1))
                 \<or> (hasWidthChanged \<and> \<not> isHorizontal (props s1))
         then this_checkAndChangeLayouts c (props s1) True s1
         else this_refreshViewability c s1)"


text \<open>\<open>itemRect\<close> is \<open>None\<close> when the caller read it from the layout array
  outside its range (\<^verbatim>\<open>undefined\<close>); its first member access throws, after
  \<^verbatim>\<open>_tempDim\<close> has been written.\<close>

definition this_checkExpectedDimensionDiscrepancy ::
  "'v Collaborators \<Rightarrow> 'a Dimension_scheme option \<Rightarrow> LayoutType \<Rightarrow> int
     \<Rightarrow> ('v, 'd) RecyclerListView \<Rightarrow> (unit, ('v, 'd) RecyclerListView) outcome" where
  "this_checkExpectedDimensionDiscrepancy c itemRect type index s =
     (if \<not> getLayoutManager c (this_virtualRenderer s) then Throw TypeError s
      else case layoutProvider (props s) of
        None \<Rightarrow>
          Throw TypeError
            (s\<lparr>this_tempDim := setMaxBounds c (this_tempDim s) (this_virtualRenderer s)\<rparr>)
      | Some lp \<Rightarrow>
          let d1 = setMaxBounds c (this_tempDim s) (this_virtualRenderer s);
              d2 = setLayoutForType lp type d1 index;
              d3 = setMaxBounds c d2 (this_virtualRenderer s);
              s1 = s\<lparr>this_tempDim := d3\<rparr>
          in (case itemRect of
                None \<Rightarrow> Throw TypeError s1
              | Some r \<Rightarrow>
                  if height r \<noteq> height d3 \<or> width r \<noteq> width d3
                  then (if this_relayoutReqIndex s1 = - 1
                        then Return () (s1\<lparr>this_relayoutReqIndex := index\<rparr>)
                        else Return () (s1\<lparr>this_relayoutReqIndex :=
                                             min (this_relayoutReqIndex s1) index\<rparr>))
                  else Return () s1))"

text \<open>The element \<^verbatim>\<open><ViewRenderer .../>\<close> with its data props, in the order
  key, data, x, y, layoutType, index, forceNonDeterministicRendering,
  isHorizontal, height, width. (The function-valued props are bound methods of
  the instance and the caller's \<^verbatim>\<open>rowRenderer\<close>.)\<close>

datatype 'd Element =
  ViewRenderer string 'd real real LayoutType int bool bool real real

text \<open>\<^verbatim>\<open>getLayouts()[dataIndex]\<close>: \<^verbatim>\<open>undefined\<close> outside the array.\<close>

definition layoutAt :: "Rect list \<Rightarrow> int \<Rightarrow> Rect option" where
  "layoutAt ls i = (if 0 \<le> i \<and> i < int (length ls) then Some (ls ! nat i) else None)"

text \<open>\<^verbatim>\<open>dataIndex && dataIndex < dataSize\<close>: \<^verbatim>\<open>undefined\<close> and \<^verbatim>\<open>0\<close> are
  falsy.\<close>

definition this_renderRowUsingMeta ::
  "'v Collaborators \<Rightarrow> RenderStackItem \<Rightarrow> ('v, 'd) RecyclerListView
     \<Rightarrow> ('d Element option, ('v, 'd) RecyclerListView) outcome" where
  "this_renderRowUsingMeta c itemMeta s =
     (case dataProvider (props s) of
        None \<Rightarrow> Throw TypeError s
      | Some dp \<Rightarrow>
          (case dataIndex itemMeta of
             None \<Rightarrow> Return None s
           | Some i \<Rightarrow>
               if i \<noteq> 0 \<and> i < getSize dp
               then
                 (if \<not> getLayoutManager c (this_virtualRenderer s) then Throw TypeError s
                  else
                    let itemRect = layoutAt (getLayouts c (this_virtualRenderer s)) i;
                        row = getDataForIndex dp i
                    in case layoutProvider (props s) of
                         None \<Rightarrow> Throw TypeError s
                       | Some lp \<Rightarrow>
                           let type = getLayoutTypeForIndex lp i
                           in andThen (this_assertType type s) (\<lambda>_ s1.
                                andThen
                                  (if \<not> forceNonDeterministicRendering (props s1)
                                   then this_checkExpectedDimensionDiscrepancy c itemRect type i s1
                                   else Return () s1)
                                  (\<lambda>_ s2.
                                     case itemRect of
                                       None \<Rightarrow> Throw TypeError s2
                                     | Some r \<Rightarrow>
                                         Return
                                           (Some (ViewRenderer (key itemMeta) row (x r) (y r)
                                                    type i
                                                    (forceNonDeterministicRendering (props s2))
                                                    (isHorizontal (props s2))
                                                    (height r) (width r)))
                                           s2)))
               else Return None s))"

text \<open>\<^verbatim>\<open>_generateRenderStack\<close>: one rendered row (or \<^verbatim>\<open>null\<close>) per entry, in
  iteration order; a throw ends the loop.\<close>

fun renderEntries ::
  "'v Collaborators \<Rightarrow> RenderStack \<Rightarrow> 'd Element option list \<Rightarrow> ('v, 'd) RecyclerListView
     \<Rightarrow> ('d Element option list, ('v, 'd) RecyclerListView) outcome" where
  "renderEntries c [] renderedItems s = Return renderedItems s"
| "renderEntries c (e # es) renderedItems s =
     andThen (this_renderRowUsingMeta c (snd e) s)
       (\<lambda>row s1. renderEntries c es (renderedItems @ [row]) s1)"

definition this_generateRenderStack ::
  "'v Collaborators \<Rightarrow> ('v, 'd) RecyclerListView
     \<Rightarrow> ('d Element option list, ('v, 'd) RecyclerListView) outcome" where
  "this_generateRenderStack c s = renderEntries c (renderStack s) [] s"

text \<open>\<^verbatim>\<open>scrollToOffset(x, y, animate = false)\<close>: an omitted \<^verbatim>\<open>animate\<close> is
  \<open>None\<close>.\<close>

definition scrollToOffset ::
  "real \<Rightarrow> real \<Rightarrow> bool option \<Rightarrow> ('v, 'd) RecyclerListView \<Rightarrow> ('v, 'd) RecyclerListView" where
  "scrollToOffset offsetX offsetY animate s =
     (case this_scrollComponent s of
        None \<Rightarrow> s
      | Some cmds \<Rightarrow>
          s\<lparr>this_scrollComponent :=
              Some (cmds @ [(offsetX, offsetY, (case animate of None \<Rightarrow> False | Some a \<Rightarrow> a))])\<rparr>)"

definition scrollToIndex ::
  "'v Collaborators \<Rightarrow> int \<Rightarrow> bool option \<Rightarrow> ('v, 'd) RecyclerListView
     \<Rightarrow> (unit, ('v, 'd) RecyclerListView) outcome" where
  "scrollToIndex c index animate s =
     (if getLayoutManager c (this_virtualRenderer s)
      then (case getOffsetForIndex c index (this_virtualRenderer s) of
              (Inl e, v) \<Rightarrow> Throw e (s\<lparr>this_virtualRenderer := v\<rparr>)
            | (Inr offsets, v) \<Rightarrow>
                Return () (scrollToOffset (fst offsets) (snd offsets) animate
                             (s\<lparr>this_virtualRenderer := v\<rparr>)))
      else Return () (s\<lparr>warnings := Suc (warnings s)\<rparr>))"

definition scrollToEnd ::
  "'v Collaborators \<Rightarrow> bool option \<Rightarrow> ('v, 'd) RecyclerListView
     \<Rightarrow> (unit, ('v, 'd) RecyclerListView) outcome" where
  "scrollToEnd c animate s =
     (case dataProvider (props s) of
        None \<Rightarrow> Throw TypeError s
      | Some dp \<Rightarrow> scrollToIndex c (getSize dp - 1) animate s)"

definition this_onScroll ::
  "'v Collaborators \<Rightarrow> real \<Rightarrow> real \<Rightarrow> ScrollEvent \<Rightarrow> ('v, 'd) RecyclerListView
     \<Rightarrow> (unit, ('v, 'd) RecyclerListView) outcome" where
  "this_onScroll c offsetX offsetY rawEvent s =
     andThen (callRenderer (\<lambda>v. returned (updateOffset c offsetX offsetY v)) s) (\<lambda>_ s1.
       let s2 = (if onScroll (props s1)
                 then s1\<lparr>onScrollCalls := onScrollCalls s1 @ [(rawEvent, offsetX, offsetY)]\<rparr>
                 else s1)
       in Return () (this_processOnEndReached c s2))"

text \<open>The context provider is an object the props refer to: what
  \<^verbatim>\<open>save\<close> and \<^verbatim>\<open>remove\<close> do to it is seen through the props afterwards.\<close>

definition componentWillUnmount ::
  "'v Collaborators \<Rightarrow> ('v, 'd) RecyclerListView \<Rightarrow> ('v, 'd) RecyclerListView" where
  "componentWillUnmount c s =
     (case contextProvider (props s) of
        None \<Rightarrow> s
      | Some cp \<Rightarrow>
          let uniqueKey = getUniqueKey cp
          in if uniqueKey \<noteq> []
             then
               let cp1 = save uniqueKey (SNumber (getCurrentScrollOffset c s)) cp;
                   cp2 = (if forceNonDeterministicRendering (props s)
                             \<and> getLayoutManager c (this_virtualRenderer s)
                          then save (uniqueKey @ ''_layouts'')
                                 (SString (JSON_stringify c (getLayouts c (this_virtualRenderer s))))
                                 cp1
                          else cp1)
               in s\<lparr>props := (props s)\<lparr>contextProvider := Some cp2\<rparr>\<rparr>
             else s)"

definition componentWillMount ::
  "'v Collaborators \<Rightarrow> ('v, 'd) RecyclerListView
     \<Rightarrow> (unit, ('v, 'd) RecyclerListView) outcome" where
  "componentWillMount c s =
     (case contextProvider (props s) of
        None \<Rightarrow> Return () s
      | Some cp \<Rightarrow>
          let uniqueKey = getUniqueKey cp
          in if uniqueKey \<noteq> []
             then
               let s1 = (case get uniqueKey cp of
                           Some (SNumber offset) \<Rightarrow>
                             if offset > 0 then s\<lparr>this_initialOffset := offset\<rparr> else s
                         | _ \<Rightarrow> s)
               in andThen
                    (if forceNonDeterministicRendering (props s1)
                     then (case get (uniqueKey @ ''_layouts'') cp of
                             Some (SString cachedLayouts) \<Rightarrow>
                               if cachedLayouts \<noteq> []
                               then (case JSON_parse c cachedLayouts of
                                       Inl e \<Rightarrow> Throw e s1
                                     | Inr layoutArray \<Rightarrow>
                                         Return () (s1\<lparr>this_cachedLayouts := layoutArray\<rparr>))
                               else Return () s1
                           | _ \<Rightarrow> Return () s1)
                     else Return () s1)
                    (\<lambda>_ s2. Return ()
                       (s2\<lparr>props := (props s2)\<lparr>contextProvider := Some (remove uniqueKey cp)\<rparr>\<rparr>))
             else Return () s)"

subsection \<open>What a call raised, and the instance it left\<close>

definition raised :: "('a, 's) outcome \<Rightarrow> error option" where
  "raised r = (case r of Return a s \<Rightarrow> None | Throw e s \<Rightarrow> Some e)"

definition after :: "('a, 's) outcome \<Rightarrow> 's" where
  "after r = (case r of Return a s \<Rightarrow> s | Throw e s \<Rightarrow> s)"

subsection \<open>Sequences of events\<close>


text \<open>Events at the debouncer: a call of \<^verbatim>\<open>_queueStateRefresh\<close>, or the expiry
  of its timer.\<close>

datatype RefreshEvent = RefreshRequest | TimerExpires

fun refreshEvents ::
  "RefreshEvent list \<Rightarrow> ('v, 'd) RecyclerListView \<Rightarrow> ('v, 'd) RecyclerListView" where
  "refreshEvents [] s = s"
| "refreshEvents (RefreshRequest # es) s = refreshEvents es (this_queueStateRefresh s)"
| "refreshEvents (TimerExpires # es) s = refreshEvents es (refreshTimerExpired s)"

text \<open>No computing method of the collaborators throws the error \<open>e\<close>; none
  throws at all.\<close>

definition neverRaise :: "error \<Rightarrow> 'v Collaborators \<Rightarrow> bool" where
  "neverRaise e c =
     (\<forall>v lm i n.
        raisedBy (init c v) \<noteq> Some e \<and> raisedBy (startViewabilityTracker c v) \<noteq> Some e
        \<and> raisedBy (refresh c v) \<noteq> Some e \<and> raisedBy (refreshWithAnchor c v) \<noteq> Some e
        \<and> raisedBy (setLayoutManager c lm v) \<noteq> Some e
        \<and> raisedBy (reLayoutFromIndex c i n v) \<noteq> Some e)"

definition allReturn :: "'v Collaborators \<Rightarrow> bool" where
  "allReturn c =
     (\<forall>v lm i n.
        raisedBy (init c v) = None \<and> raisedBy (startViewabilityTracker c v) = None
        \<and> raisedBy (refresh c v) = None \<and> raisedBy (refreshWithAnchor c v) = None
        \<and> raisedBy (setLayoutManager c lm v) = None
        \<and> raisedBy (reLayoutFromIndex c i n v) = None)"

text \<open>The test of line 452, \<^verbatim>\<open>windowBound - lastOffset <= onEndReachedThreshold\<close>,
  for a renderer state and a viewport.\<close>

definition withinEndThreshold ::
  "'v Collaborators \<Rightarrow> 'd RecyclerListViewProps \<Rightarrow> 'v \<Rightarrow> Dimension \<Rightarrow> bool" where
  "withinEndThreshold c p v viewport =
     ((if isHorizontal p
       then width (getLayoutDimension c v) - width viewport
       else height (getLayoutDimension c v) - height viewport)
      - (if getViewabilityTracker c v then getLastOffset c v else 0)
      \<le> onEndReachedThreshold p)"

text \<open>Calls of \<^verbatim>\<open>_processOnEndReached\<close>, one per event; between two of them
  the renderer (content extent, last offset) and the viewport may have changed
  to anything: each event comes with the renderer state and the viewport it
  observes.\<close>

fun endReachedEvents ::
  "'v Collaborators \<Rightarrow> ('v \<times> Dimension) list \<Rightarrow> ('v, 'd) RecyclerListView
     \<Rightarrow> ('v, 'd) RecyclerListView" where
  "endReachedEvents c [] s = s"
| "endReachedEvents c (e # es) s =
     endReachedEvents c es
       (this_processOnEndReached c (s\<lparr>this_virtualRenderer := fst e, this_layout := snd e\<rparr>))"

section \<open>The layout engine and the viewability tracker, from the specification\<close>

text \<open>Modelled from the spec: \<^verbatim>\<open>getOffsetForIndex\<close> of the Layout Engine (class
  \<^verbatim>\<open>LayoutManager\<close>, not among the source files), section 4.2: it "returns the
  rectangle's origin" and "fails with OutOfRange if index >= itemCount or < 0".
  The Layout array is index-aligned with the items, so its length is the item
  count.\<close>

definition LayoutEngine_getOffsetForIndex :: "Rect list \<Rightarrow> int \<Rightarrow> error + Point" where
  "LayoutEngine_getOffsetForIndex ls index =
     (if index < 0 \<or> index \<ge> int (length ls) then Inl OutOfRange
      else Inr (x (ls ! nat index), y (ls ! nat index)))"

text \<open>Modelled from the spec: the import of a Layout array by the Layout
  Engine (constructor of \<^verbatim>\<open>LayoutManager\<close>, not among the source files), section
  4.2, Persistence: "the full Layout array can be exported/imported verbatim to
  skip recomputation [...] provided itemCount and type assignments are
  unchanged". An engine made with an array holds it as its Layout array; one
  made without holds none.\<close>

fun LayoutEngine_imported :: "LayoutManager \<Rightarrow> Rect list" where
  "LayoutEngine_imported (LayoutManager lp d h cached) =
     (case cached of None \<Rightarrow> [] | Some ls \<Rightarrow> ls)"

text \<open>Modelled from the spec: the indexes a new engine has still to lay out
  for an item count (section 4.2: "each index is unlaid | laid | overridden";
  \<^verbatim>\<open>computeLayoutFrom(startIndex, itemCount)\<close> is owed for the unlaid ones): those
  the imported array does not cover.\<close>

definition LayoutEngine_unlaid :: "LayoutManager \<Rightarrow> nat \<Rightarrow> nat list" where
  "LayoutEngine_unlaid lm itemCount = [length (LayoutEngine_imported lm) ..< itemCount]"

text \<open>Modelled from the spec: \<^verbatim>\<open>getLayoutDimension\<close> of the Layout Engine (not
  among the source files), section 4.2: "the bounding size along both axes over
  all laid-out rectangles".\<close>

definition LayoutEngine_getLayoutDimension :: "Rect list \<Rightarrow> Dimension" where
  "LayoutEngine_getLayoutDimension ls =
     \<lparr> height = foldr (\<lambda>r m. max (y r + height r) m) ls 0,
       width = foldr (\<lambda>r m. max (x r + width r) m) ls 0 \<rparr>"

text \<open>Modelled from the spec: the Window State of section 3,
  \<^verbatim>\<open>{scrollOffset, viewportSize, renderAheadDistance}\<close> (kept by the
  \<^verbatim>\<open>ViewabilityTracker\<close>, not among the source files).\<close>

record WindowState =
  scrollOffset :: real
  viewportSize :: real
  renderAheadDistance :: real

text \<open>Modelled from the spec: the state of the renderer (class
  \<^verbatim>\<open>VirtualRenderer\<close> with its layout engine and viewability tracker, not among
  the source files) as far as sections 3, 4.1 and 4.3 describe it: the Layout
  array (absent before a layout engine is set), the scroll axis, the Window
  State, the required and the visible index set of the last query, and the
  single-slot visibility observer of section 9 (attached or not). The
  reconciler of section 4.4 and its slots are left out.\<close>

record RendererModel =
  layoutArray :: "Rect list option"
  horizontal :: bool
  window :: WindowState
  requiredSet :: "int list"
  visibleSet :: "int list"
  observer :: bool

text \<open>Modelled from the spec: the edges of a rectangle along the scroll axis
  (section 3: "scrollOffset is the scalar position along the primary scroll
  axis").\<close>

definition leadingEdge :: "bool \<Rightarrow> Rect \<Rightarrow> real" where
  "leadingEdge h r = (if h then x r else y r)"

definition trailingEdge :: "bool \<Rightarrow> Rect \<Rightarrow> real" where
  "trailingEdge h r = (if h then x r + width r else y r + height r)"

text \<open>Modelled from the spec: the required index set (sections 3 and 4.3,
  \<^verbatim>\<open>ViewabilityTracker\<close>): the indices whose rectangle has its "trailing edge >=
  scrollOffset - renderAheadDistance" and its "leading edge <= scrollOffset +
  viewportSize + renderAheadDistance", in order; empty "if viewportSize is 0 or
  itemCount is 0".\<close>

definition requiredIndexes :: "bool \<Rightarrow> Rect list \<Rightarrow> WindowState \<Rightarrow> int list" where
  "requiredIndexes h ls w =
     (if viewportSize w = 0 then []
      else map int
             (filter (\<lambda>i. trailingEdge h (ls ! i) \<ge> scrollOffset w - renderAheadDistance w
                          \<and> leadingEdge h (ls ! i)
                              \<le> scrollOffset w + viewportSize w + renderAheadDistance w)
                [0 ..< length ls]))"

text \<open>Modelled from the spec: the visible index set (section 3,
  \<^verbatim>\<open>ViewabilityTracker\<close>): the indices "strictly intersecting [scrollOffset,
  scrollOffset + viewportSize] (no render-ahead margin)"; empty "if viewportSize
  is 0 or itemCount is 0".\<close>

definition visibleIndexes :: "bool \<Rightarrow> Rect list \<Rightarrow> WindowState \<Rightarrow> int list" where
  "visibleIndexes h ls w =
     (if viewportSize w = 0 then []
      else map int
             (filter (\<lambda>i. trailingEdge h (ls ! i) > scrollOffset w
                          \<and> leadingEdge h (ls ! i) < scrollOffset w + viewportSize w)
                [0 ..< length ls]))"

text \<open>Modelled from the spec: \<^verbatim>\<open>onScroll(offset)\<close> of section 4.1 (method
  \<^verbatim>\<open>updateOffset\<close> of \<^verbatim>\<open>VirtualRenderer\<close>, not among the source files): it
  "updates Window State, recomputes the required/visible sets, [...] and - if
  the visible set differs from the previous call - invokes the visibility
  observer with three ordered index lists: all currently visible, newly became
  visible, newly became not-visible". The sets differ as sets ("set equality
  by index, order-insensitive", section 4.3); without an attached observer
  nothing is invoked.\<close>

definition Coordinator_onScroll :: "real \<Rightarrow> RendererModel \<Rightarrow> Callback list \<times> RendererModel" where
  "Coordinator_onScroll offset m =
     (let ls = (case layoutArray m of None \<Rightarrow> [] | Some l \<Rightarrow> l);
          w = (window m)\<lparr>scrollOffset := offset\<rparr>;
          req = requiredIndexes (horizontal m) ls w;
          vis = visibleIndexes (horizontal m) ls w;
          now = filter (\<lambda>i. i \<notin> set (visibleSet m)) vis;
          notNow = filter (\<lambda>i. i \<notin> set vis) (visibleSet m)
      in ((if observer m \<and> set vis \<noteq> set (visibleSet m)
           then [VisibleItemsChanged vis now notNow] else []),
          m\<lparr>window := w, requiredSet := req, visibleSet := vis\<rparr>))"

text \<open>Modelled from the spec: \<^verbatim>\<open>updateOffset(offsetX, offsetY)\<close> of
  \<^verbatim>\<open>VirtualRenderer\<close> (not among the source files): the scroll event of section
  4.1 with the offset along the scroll axis.\<close>

definition Renderer_updateOffset ::
  "real \<Rightarrow> real \<Rightarrow> RendererModel \<Rightarrow> Callback list \<times> RendererModel" where
  "Renderer_updateOffset offsetX offsetY m =
     Coordinator_onScroll (if horizontal m then offsetX else offsetY) m"

section \<open>A stand-in for JSON on layout arrays\<close>

text \<open>
  \<^verbatim>\<open>JSON\<close> belongs to the language, not to the repository. For the worked
  examples it is stood in for by a writer and a reader of the one shape of text
  the component exchanges with it: the object with the member \<^verbatim>\<open>layoutArray\<close>,
  an array of rectangles with the members \<^verbatim>\<open>x\<close>, \<^verbatim>\<open>y\<close>, \<^verbatim>\<open>width\<close>, \<^verbatim>\<open>height\<close>
  in this order, every number written in decimal without fraction or exponent
  (as \<^verbatim>\<open>JSON.stringify\<close> writes a whole number below 10 to the 21). The reader
  answers a \<^verbatim>\<open>SyntaxError\<close> for any other text.
\<close>

definition digitChar :: "nat \<Rightarrow> char" where
  "digitChar d = char_of (48 + d)"

definition isDigit :: "char \<Rightarrow> bool" where
  "isDigit ch = (48 \<le> (of_char ch :: nat) \<and> (of_char ch :: nat) < 58)"

definition digitValue :: "char \<Rightarrow> nat" where
  "digitValue ch = of_char ch - 48"

function showNat :: "nat \<Rightarrow> string" where
  "showNat n = (if n < 10 then [digitChar n] else showNat (n div 10) @ [digitChar (n mod 10)])"
  by pat_completeness auto
termination
  by (relation "measure id") auto

declare showNat.simps [simp del]

fun readNat :: "nat \<Rightarrow> string \<Rightarrow> nat \<times> string" where
  "readNat acc [] = (acc, [])"
| "readNat acc (ch # cs) =
     (if isDigit ch then readNat (10 * acc + digitValue ch) cs else (acc, ch # cs))"

definition showNumber :: "real \<Rightarrow> string" where
  "showNumber r =
     (if r < 0 then CHR ''-'' # showNat (nat (- \<lfloor>r\<rfloor>)) else showNat (nat \<lfloor>r\<rfloor>))"

definition readNumber :: "string \<Rightarrow> (real \<times> string) option" where
  "readNumber str =
     (case str of
        [] \<Rightarrow> None
      | ch # cs \<Rightarrow>
          if ch = CHR ''-''
          then (case cs of
                  [] \<Rightarrow> None
                | d # ds \<Rightarrow>
                    if isDigit d
                    then (case readNat 0 cs of (n, rest) \<Rightarrow> Some (- real n, rest))
                    else None)
          else if isDigit ch
          then (case readNat 0 str of (n, rest) \<Rightarrow> Some (real n, rest))
          else None)"

text \<open>The text after a prefix, if the text starts with it.\<close>

definition expect :: "string \<Rightarrow> string \<Rightarrow> string option" where
  "expect p str = (if take (length p) str = p then Some (drop (length p) str) else None)"

definition showRect :: "Rect \<Rightarrow> string" where
  \<open>showRect r =
     ''{"x":'' @ showNumber (x r) @ '',"y":'' @ showNumber (y r)
       @ '',"width":'' @ showNumber (width r) @ '',"height":'' @ showNumber (height r) @ ''}''\<close>

definition readRect :: "string \<Rightarrow> (Rect \<times> string) option" where
  \<open>readRect str =
     Option.bind (expect ''{"x":'' str) (\<lambda>s1.
     Option.bind (readNumber s1) (\<lambda>(vx, s2).
     Option.bind (expect '',"y":'' s2) (\<lambda>s3.
     Option.bind (readNumber s3) (\<lambda>(vy, s4).
     Option.bind (expect '',"width":'' s4) (\<lambda>s5.
     Option.bind (readNumber s5) (\<lambda>(vw, s6).
     Option.bind (expect '',"height":'' s6) (\<lambda>s7.
     Option.bind (readNumber s7) (\<lambda>(vh, s8).
     Option.bind (expect ''}'' s8) (\<lambda>s9.
       Some (\<lparr> height = vh, width = vw, x = vx, y = vy \<rparr>, s9))))))))))\<close>

definition showArray :: "Rect list \<Rightarrow> string" where
  "showArray ls =
     (case ls of
        [] \<Rightarrow> ''[]''
      | r # rs \<Rightarrow> ''['' @ showRect r @ concat (map (\<lambda>r. '','' @ showRect r) rs) @ '']'')"

text \<open>The rest of an array after its first element; the first argument
  bounds the number of elements read.\<close>

fun readMore :: "nat \<Rightarrow> string \<Rightarrow> (Rect list \<times> string) option" where
  "readMore 0 str = None"
| "readMore (Suc k) str =
     (case str of
        [] \<Rightarrow> None
      | ch # cs \<Rightarrow>
          if ch = CHR '']'' then Some ([], cs)
          else if ch = CHR '',''
          then (case readRect cs of
                  None \<Rightarrow> None
                | Some (r, rest) \<Rightarrow>
                    (case readMore k rest of
                       None \<Rightarrow> None
                     | Some (rs, rest') \<Rightarrow> Some (r # rs, rest')))
          else None)"

definition readArray :: "string \<Rightarrow> (Rect list \<times> string) option" where
  "readArray str =
     (case expect ''['' str of
        None \<Rightarrow> None
      | Some s1 \<Rightarrow>
          (case expect '']'' s1 of
             Some s2 \<Rightarrow> Some ([], s2)
           | None \<Rightarrow>
               (case readRect s1 of
                  None \<Rightarrow> None
                | Some (r, rest) \<Rightarrow>
                    (case readMore (Suc (length rest)) rest of
                       None \<Rightarrow> None
                     | Some (rs, rest') \<Rightarrow> Some (r # rs, rest')))))"

definition JSON_stringify_layouts :: "Rect list \<Rightarrow> string" where
  \<open>JSON_stringify_layouts ls = ''{"layoutArray":'' @ showArray ls @ ''}''\<close>

definition JSON_parse_layouts :: "string \<Rightarrow> error + Rect list option" where
  \<open>JSON_parse_layouts str =
     (case expect ''{"layoutArray":'' str of
        None \<Rightarrow> Inl SyntaxError
      | Some s1 \<Rightarrow>
          (case readArray s1 of
             None \<Rightarrow> Inl SyntaxError
           | Some (ls, rest) \<Rightarrow> if rest = ''}'' then Inr (Some ls) else Inl SyntaxError))\<close>

text \<open>A rectangle, a layout array, whose numbers are whole.\<close>

definition wholeRect :: "Rect \<Rightarrow> bool" where
  "wholeRect r =
     (real_of_int \<lfloor>x r\<rfloor> = x r \<and> real_of_int \<lfloor>y r\<rfloor> = y r
      \<and> real_of_int \<lfloor>width r\<rfloor> = width r \<and> real_of_int \<lfloor>height r\<rfloor> = height r)"

section \<open>A concrete list, for the worked examples\<close>

text \<open>Four rows of 50 by 50 stacked in a viewport of 100 by 120. The type
  oracle answers the number 0 for rows 0 and 1, the string "row" for row 2
  and the empty string for row 3; every type is declared 50 by 50.\<close>

definition exampleLayouts :: "Rect list" where
  "exampleLayouts =
     [\<lparr> height = 50, width = 50, x = 0, y = 0 \<rparr>,
      \<lparr> height = 50, width = 50, x = 0, y = 50 \<rparr>,
      \<lparr> height = 50, width = 50, x = 0, y = 100 \<rparr>,
      \<lparr> height = 50, width = 50, x = 0, y = 150 \<rparr>]"

definition exampleLayoutProvider :: LayoutProvider where
  "exampleLayoutProvider =
     \<lparr> lp_ref = 1,
       getLayoutTypeForIndex =
         (\<lambda>i. if i = 2 then TString ''row'' else if i = 3 then TString [] else TNumber 0),
       setLayoutForType = (\<lambda>t d i. \<lparr> height = 50, width = 50 \<rparr>) \<rparr>"

definition exampleDataProvider :: "int DataProvider" where
  "exampleDataProvider =
     \<lparr> dp_ref = 1, getSize = 4, getDataForIndex = (\<lambda>i. 10 * i),
       getFirstIndexToProcessInternal = 0 \<rparr>"

definition exampleProps :: "int RecyclerListViewProps" where
  "exampleProps =
     \<lparr> layoutProvider = Some exampleLayoutProvider,
       dataProvider = Some exampleDataProvider,
       contextProvider = Some \<lparr> getUniqueKey = ''list'', entries = Map.empty \<rparr>,
       renderAheadOffset = 250,
       isHorizontal = False,
       onScroll = True,
       onEndReached = True,
       onEndReachedThreshold = 0,
       onVisibleIndexesChanged = True,
       initialOffset = 0,
       initialRenderIndex = 0,
       disableRecycling = False,
       forceNonDeterministicRendering = True \<rparr>"

definition exampleRenderer :: RendererModel where
  "exampleRenderer =
     \<lparr> layoutArray = Some exampleLayouts,
       horizontal = False,
       window = \<lparr> scrollOffset = 0, viewportSize = 120, renderAheadDistance = 250 \<rparr>,
       requiredSet = [0, 1, 2, 3],
       visibleSet = [0, 1, 2],
       observer = True \<rparr>"

text \<open>Stand-ins for the collaborators: the methods the specification
  describes are the definitions above; the layout manager keeps the layouts it
  is constructed with and does not restrict a dimension
  (\<open>setMaxBounds\<close>); the other methods leave the renderer as it is, call
  nothing back and return. \<open>JSON\<close> is the stand-in above.\<close>

definition exampleCollaborators :: "RendererModel Collaborators" where
  "exampleCollaborators =
     \<lparr> VirtualRenderer_new =
         (\<lambda>recycle. \<lparr> layoutArray = None, horizontal = False,
                       window = \<lparr> scrollOffset = 0, viewportSize = 0,
                                  renderAheadDistance = 250 \<rparr>,
                       requiredSet = [], visibleSet = [], observer = False \<rparr>),
       setParamsAndDimensions =
         (\<lambda>p d m. m\<lparr>horizontal := params_isHorizontal p,
                     window := (window m)\<lparr>viewportSize :=
                                   (if params_isHorizontal p then width d else height d),
                                 renderAheadDistance := params_renderAheadOffset p\<rparr>\<rparr>),
       setLayoutManager =
         (\<lambda>lm m. Reply [] None (m\<lparr>layoutArray := Some (LayoutEngine_imported lm)\<rparr>)),
       setLayoutProvider = (\<lambda>lp m. m),
       attachVisibleItemsListener = (\<lambda>m. m\<lparr>observer := True\<rparr>),
       removeVisibleItemsListener = (\<lambda>m. m\<lparr>observer := False\<rparr>),
       init = (\<lambda>m. Reply [] None m),
       getInitialOffset = (\<lambda>m. (0, 0)),
       startViewabilityTracker = (\<lambda>m. Reply [] None m),
       refresh = (\<lambda>m. Reply [] None m),
       refreshWithAnchor = (\<lambda>m. Reply [] None m),
       updateOffset = Renderer_updateOffset,
       getLayoutDimension =
         (\<lambda>m. LayoutEngine_getLayoutDimension
                 (case layoutArray m of None \<Rightarrow> [] | Some ls \<Rightarrow> ls)),
       getLayoutManager = (\<lambda>m. layoutArray m \<noteq> None),
       getLayouts = (\<lambda>m. case layoutArray m of None \<Rightarrow> [] | Some ls \<Rightarrow> ls),
       getOffsetForIndex =
         (\<lambda>i m. (LayoutEngine_getOffsetForIndex
                    (case layoutArray m of None \<Rightarrow> [] | Some ls \<Rightarrow> ls) i, m)),
       reLayoutFromIndex = (\<lambda>i n m. Reply [] None m),
       overrideLayout = (\<lambda>i d m. m),
       setMaxBounds = (\<lambda>d m. d),
       getViewabilityTracker = (\<lambda>m. True),
       getLastOffset = (\<lambda>m. scrollOffset (window m)),
       JSON_stringify = JSON_stringify_layouts,
       JSON_parse = JSON_parse_layouts \<rparr>"

text \<open>The mounted list: constructed with the example props, sized once,
  holding the example renderer.\<close>

definition exampleInstance :: "(RendererModel, int) RecyclerListView" where
  "exampleInstance =
     (RecyclerListView_new exampleCollaborators exampleProps)
       \<lparr> this_virtualRenderer := exampleRenderer,
         this_initComplete := True,
         this_layout := \<lparr> height = 120, width = 100 \<rparr>,
         this_scrollComponent := Some [] \<rparr>"


text \<open>The example renderer scrolled to an offset.\<close>

definition exampleScrolledTo :: "real \<Rightarrow> RendererModel" where
  "exampleScrolledTo offset =
     exampleRenderer\<lparr>window := (window exampleRenderer)\<lparr>scrollOffset := offset\<rparr>\<rparr>"

text \<open>The same list with \<^verbatim>\<open>forceNonDeterministicRendering\<close> off.\<close>

definition exampleDeterministicInstance :: "(RendererModel, int) RecyclerListView" where
  "exampleDeterministicInstance =
     exampleInstance\<lparr>props := exampleProps\<lparr>forceNonDeterministicRendering := False\<rparr>\<rparr>"

section \<open>Properties\<close>

subsection \<open>Outcomes\<close>

lemma raised_simps [simp]:
  "raised (Return a s) = None" "raised (Throw e s) = Some e"
  by (simp_all add: raised_def)

lemma after_simps [simp]:
  "after (Return a s) = s" "after (Throw e s) = s"
  by (simp_all add: after_def)

lemma andThen_simps [simp]:
  "andThen (Return a s) f = f a s" "andThen (Throw e s) f = Throw e s"
  by (simp_all add: andThen_def)

lemma raisedBy_Reply [simp]: "raisedBy (Reply cs e v) = e"
  by (simp add: raisedBy_def)


lemma andThen_not_raised:
  "raised m \<noteq> Some e \<Longrightarrow> (\<And>a s. raised (f a s) \<noteq> Some e) \<Longrightarrow> raised (andThen m f) \<noteq> Some e"
  by (cases m) (simp_all add: andThen_def)

lemma andThen_raised_None:
  assumes "raised m = None" "\<And>a s'. m = Return a s' \<Longrightarrow> raised (f a s') = None"
  shows "raised (andThen m f) = None"
  using assms by (cases m) (simp_all add: andThen_def)

subsection \<open>What the end-reached check leaves alone\<close>

lemma processOnEndReached_props [simp]: "props (this_processOnEndReached c s) = props s"
  by (simp add: this_processOnEndReached_def Let_def)

lemma processOnEndReached_frame [simp]:
  "this_virtualRenderer (this_processOnEndReached c s) = this_virtualRenderer s"
  "onVisibleIndexesChangedCalls (this_processOnEndReached c s) = onVisibleIndexesChangedCalls s"
  "newLayoutManagers (this_processOnEndReached c s) = newLayoutManagers s"
  by (simp_all add: this_processOnEndReached_def Let_def)

subsection \<open>The example list\<close>

lemma exampleLayouts_length [simp]: "length exampleLayouts = 4"
  by (simp add: exampleLayouts_def)

lemma exampleCollaborators_simps [simp]:
  "setParamsAndDimensions exampleCollaborators p d m =
     m\<lparr>horizontal := params_isHorizontal p,
       window := (window m)\<lparr>viewportSize := (if params_isHorizontal p then width d else height d),
                             renderAheadDistance := params_renderAheadOffset p\<rparr>\<rparr>"
  "setLayoutManager exampleCollaborators lm m =
     Reply [] None (m\<lparr>layoutArray := Some (LayoutEngine_imported lm)\<rparr>)"
  "setLayoutProvider exampleCollaborators lpo m = m"
  "attachVisibleItemsListener exampleCollaborators m = m\<lparr>observer := True\<rparr>"
  "removeVisibleItemsListener exampleCollaborators m = m\<lparr>observer := False\<rparr>"
  "init exampleCollaborators m = Reply [] None m"
  "getInitialOffset exampleCollaborators m = (0, 0)"
  "startViewabilityTracker exampleCollaborators m = Reply [] None m"
  "refresh exampleCollaborators m = Reply [] None m"
  "refreshWithAnchor exampleCollaborators m = Reply [] None m"
  "updateOffset exampleCollaborators = Renderer_updateOffset"
  "getLayoutDimension exampleCollaborators m =
     LayoutEngine_getLayoutDimension (case layoutArray m of None \<Rightarrow> [] | Some ls \<Rightarrow> ls)"
  "getLayoutManager exampleCollaborators m = (layoutArray m \<noteq> None)"
  "getLayouts exampleCollaborators m = (case layoutArray m of None \<Rightarrow> [] | Some ls \<Rightarrow> ls)"
  "getOffsetForIndex exampleCollaborators i m =
     (LayoutEngine_getOffsetForIndex (case layoutArray m of None \<Rightarrow> [] | Some ls \<Rightarrow> ls) i, m)"
  "reLayoutFromIndex exampleCollaborators i n m = Reply [] None m"
  "overrideLayout exampleCollaborators i d m = m"
  "setMaxBounds exampleCollaborators d m = d"
  "getViewabilityTracker exampleCollaborators m = True"
  "getLastOffset exampleCollaborators m = scrollOffset (window m)"
  "JSON_stringify exampleCollaborators = JSON_stringify_layouts"
  "JSON_parse exampleCollaborators = JSON_parse_layouts"
  by (simp_all add: exampleCollaborators_def)

lemma exampleInstance_simps [simp]:
  "props exampleInstance = exampleProps"
  "this_virtualRenderer exampleInstance = exampleRenderer"
  "this_relayoutReqIndex exampleInstance = - 1"
  "this_onEndReachedCalled exampleInstance = False"
  "this_initComplete exampleInstance = True"
  "this_layout exampleInstance = \<lparr> height = 120, width = 100 \<rparr>"
  "this_tempDim exampleInstance = \<lparr> height = 0, width = 0 \<rparr>"
  "this_cachedLayouts exampleInstance = None"
  "this_scrollComponent exampleInstance = Some []"
  "refreshRequestDebouncer exampleInstance = \<lparr> timerRuns = False, callWaits = False \<rparr>"
  "newLayoutManagers exampleInstance = []"
  "setStateCalls exampleInstance = 0"
  "warnings exampleInstance = 0"
  "onEndReachedCalls exampleInstance = 0"
  "onVisibleIndexesChangedCalls exampleInstance = []"
  by (simp_all add: exampleInstance_def RecyclerListView_new_def)

lemma exampleProps_simps [simp]:
  "layoutProvider exampleProps = Some exampleLayoutProvider"
  "dataProvider exampleProps = Some exampleDataProvider"
  "contextProvider exampleProps = Some \<lparr> getUniqueKey = ''list'', entries = Map.empty \<rparr>"
  "isHorizontal exampleProps = False"
  "onScroll exampleProps = True"
  "onEndReached exampleProps = True"
  "onEndReachedThreshold exampleProps = 0"
  "onVisibleIndexesChanged exampleProps = True"
  "forceNonDeterministicRendering exampleProps = True"
  by (simp_all add: exampleProps_def)

lemma exampleCollaborators_allReturn [simp]: "allReturn exampleCollaborators"
  by (simp add: allReturn_def)

lemma exampleRenderer_simps [simp]:
  "layoutArray exampleRenderer = Some exampleLayouts"
  "horizontal exampleRenderer = False"
  "window exampleRenderer = \<lparr> scrollOffset = 0, viewportSize = 120, renderAheadDistance = 250 \<rparr>"
  "requiredSet exampleRenderer = [0, 1, 2, 3]"
  "visibleSet exampleRenderer = [0, 1, 2]"
  "observer exampleRenderer = True"
  by (simp_all add: exampleRenderer_def)

subsection \<open>Calls of the collaborators\<close>

lemma allReturn_neverRaise: "allReturn c \<Longrightarrow> neverRaise e c"
  by (simp add: allReturn_def neverRaise_def)

lemma neverRaiseD:
  assumes "neverRaise e c"
  shows "raisedBy (init c v) \<noteq> Some e" "raisedBy (startViewabilityTracker c v) \<noteq> Some e"
    "raisedBy (refresh c v) \<noteq> Some e" "raisedBy (refreshWithAnchor c v) \<noteq> Some e"
    "raisedBy (setLayoutManager c lm v) \<noteq> Some e"
    "raisedBy (reLayoutFromIndex c i n v) \<noteq> Some e"
  using assms by (simp_all add: neverRaise_def)

lemma allReturnD:
  assumes "allReturn c"
  shows "raisedBy (init c v) = None" "raisedBy (startViewabilityTracker c v) = None"
    "raisedBy (refresh c v) = None" "raisedBy (refreshWithAnchor c v) = None"
    "raisedBy (setLayoutManager c lm v) = None"
    "raisedBy (reLayoutFromIndex c i n v) = None"
  using assms by (simp_all add: allReturn_def)

lemma deliver_raised_TypeError:
  "raised (deliver cs s) = Some e \<Longrightarrow> e = TypeError"
proof (induction cs s rule: deliver.induct)
  case (4 allv now notNow cs s)
  then show ?case
    by (simp add: this_onVisibleItemsChanged_def split: if_splits)
qed simp_all

lemma callRenderer_not_raised:
  assumes "raisedBy (m (this_virtualRenderer s)) \<noteq> Some e" and "e \<noteq> TypeError"
  shows "raised (callRenderer m s) \<noteq> Some e"
proof (cases "m (this_virtualRenderer s)")
  case (Reply cs eo v)
  with assms(1) have eo: "eo \<noteq> Some e" by simp
  show ?thesis
  proof (cases "deliver cs (s\<lparr>this_virtualRenderer := v\<rparr>)")
    case (Return a s1)
    with Reply eo show ?thesis by (cases eo) (simp_all add: callRenderer_def)
  next
    case (Throw e' s1)
    with deliver_raised_TypeError [of cs "s\<lparr>this_virtualRenderer := v\<rparr>" e'] assms(2) Reply
    show ?thesis by (auto simp add: callRenderer_def)
  qed
qed

lemma returned_simps [simp]:
  "raisedBy (returned r) = None"
  by (simp add: returned_def)

lemma deliver_ok:
  "onVisibleIndexesChanged (props s) \<Longrightarrow> \<exists>s'. deliver cs s = Return () s' \<and> props s' = props s"
proof (induction cs s rule: deliver.induct)
  case (4 allv now notNow cs s)
  let ?s1 = "s\<lparr>onVisibleIndexesChangedCalls :=
               onVisibleIndexesChangedCalls s @ [(allv, now, notNow)]\<rparr>"
  have "this_onVisibleItemsChanged allv now notNow s = Return () ?s1"
    using "4.prems" by (simp add: this_onVisibleItemsChanged_def)
  moreover have "\<exists>s'. deliver cs ?s1 = Return () s' \<and> props s' = props ?s1"
    using "4.prems" by (intro "4.IH") simp
  ultimately show ?case by simp
qed (simp_all add: this_renderStackWhenReady_def)

lemma callRenderer_ok:
  assumes "onVisibleIndexesChanged (props s)" and "raisedBy (m (this_virtualRenderer s)) = None"
  shows "\<exists>s'. callRenderer m s = Return () s' \<and> props s' = props s"
proof (cases "m (this_virtualRenderer s)")
  case (Reply cs eo v)
  from assms(1) have "onVisibleIndexesChanged (props (s\<lparr>this_virtualRenderer := v\<rparr>))" by simp
  from deliver_ok [OF this, of cs] Reply assms(2) show ?thesis
    by (auto simp add: callRenderer_def)
qed

lemma callRenderer_raised_None:
  "onVisibleIndexesChanged (props s) \<Longrightarrow> raisedBy (m (this_virtualRenderer s)) = None
     \<Longrightarrow> raised (callRenderer m s) = None"
  using callRenderer_ok [of s m] by auto

lemma callRenderer_props:
  "callRenderer m s = Return a s' \<Longrightarrow> props s' = props s"
proof (cases "m (this_virtualRenderer s)")
  case (Reply cs eo v)
  assume r: "callRenderer m s = Return a s'"
  have "props (after (deliver cs x)) = props x" for x :: "('a, 'b) RecyclerListView"
    by (induction cs x rule: deliver.induct)
       (simp_all add: this_renderStackWhenReady_def this_onVisibleItemsChanged_def)
  from this [of "s\<lparr>this_virtualRenderer := v\<rparr>"] r Reply show ?thesis
    by (cases "deliver cs (s\<lparr>this_virtualRenderer := v\<rparr>)")
       (auto simp add: callRenderer_def split: option.splits)
qed

subsection \<open>Dimension changes\<close>

lemma refreshViewability_not_raised:
  assumes "neverRaise e c" and "e \<noteq> TypeError"
  shows "raised (this_refreshViewability c s) \<noteq> Some e"
  unfolding this_refreshViewability_def
  by (intro andThen_not_raised callRenderer_not_raised neverRaiseD assms) simp

lemma checkAndChangeLayouts_not_raised:
  assumes "neverRaise e c" and "e \<noteq> TypeError"
  shows "raised (this_checkAndChangeLayouts c p f s) \<noteq> Some e"
  unfolding this_checkAndChangeLayouts_def Let_def
  using assms
  by (simp add: andThen_not_raised callRenderer_not_raised neverRaiseD
        refreshViewability_not_raised split: option.splits)

lemma initTrackers_not_raised:
  assumes "neverRaise e c" and "e \<noteq> TypeError" and "e \<noteq> unresolvedDependenciesException"
  shows "raised (this_initTrackers c s) \<noteq> Some e"
  unfolding this_initTrackers_def Let_def
  using assms
  by (intro andThen_not_raised)
     (simp_all add: this_assertDependencyPresence_def andThen_not_raised
        callRenderer_not_raised neverRaiseD split: option.splits)

lemma onSizeChanged_zero:
  assumes "height layout = 0 \<or> width layout = 0"
  shows "this_onSizeChanged c layout s =
           Throw layoutException
             (s\<lparr>this_layout := \<lparr> height = height layout, width = width layout \<rparr>\<rparr>)"
  using assms by (simp add: this_onSizeChanged_def Let_def)

lemma onSizeChanged_not_layoutException:
  assumes "height layout \<noteq> 0" and "width layout \<noteq> 0" and "neverRaise layoutException c"
  shows "raised (this_onSizeChanged c layout s) \<noteq> Some layoutException"
proof -
  have "raised (andThen (this_initTrackers c s')
                  (\<lambda>_ s2. Return () (this_processOnEndReached c s2)))
          \<noteq> Some layoutException" for s' :: "('a, 'b) RecyclerListView"
    by (intro andThen_not_raised initTrackers_not_raised assms) simp_all
  note [simp] = this
  from assms show ?thesis
    by (simp add: this_onSizeChanged_def Let_def checkAndChangeLayouts_not_raised
          refreshViewability_not_raised)
qed

lemma refreshViewability_raised_None:
  assumes "onVisibleIndexesChanged (props s)" and "allReturn c"
  shows "raised (this_refreshViewability c s) = None"
  unfolding this_refreshViewability_def
  by (rule andThen_raised_None) (simp_all add: callRenderer_raised_None assms allReturnD)

lemma andThen_keeps_props:
  assumes "\<exists>s'. m = Return () s' \<and> props s' = p"
    and "\<And>s'. props s' = p \<Longrightarrow> \<exists>s''. f () s' = Return () s'' \<and> props s'' = p"
  shows "\<exists>s''. andThen m f = Return () s'' \<and> props s'' = p"
  using assms by auto

lemma callRenderer_keeps_props:
  assumes "onVisibleIndexesChanged p" and "props s = p"
    and "raisedBy (m (this_virtualRenderer s)) = None"
  shows "\<exists>s'. callRenderer m s = Return () s' \<and> props s' = p"
  using callRenderer_ok [of s m] assms by auto

lemma checkAndChangeLayouts_ok:
  assumes vis: "onVisibleIndexesChanged (props s)" and dp: "dataProvider p = Some dp"
    and ret: "allReturn c"
  shows "\<exists>s'. this_checkAndChangeLayouts c p True s = Return () s' \<and> props s' = props s"
  unfolding this_checkAndChangeLayouts_def Let_def dp option.case
  apply simp
  apply (intro andThen_keeps_props callRenderer_keeps_props)
       apply (simp_all add: vis ret allReturnD)
  done

lemma initTrackers_ok:
  assumes vis: "onVisibleIndexesChanged (props s)" and dp: "dataProvider (props s) = Some dp"
    and lp: "layoutProvider (props s) = Some lp" and ret: "allReturn c"
  shows "\<exists>s'. this_initTrackers c s = Return () s' \<and> props s' = props s"
  unfolding this_initTrackers_def
  apply (simp add: this_assertDependencyPresence_def dp lp Let_def vis split del: if_split)
  apply (intro andThen_keeps_props callRenderer_keeps_props)
          apply (simp_all add: vis ret allReturnD callRenderer_keeps_props)
  done

lemma onSizeChanged_ok:
  assumes "height layout \<noteq> 0" "width layout \<noteq> 0"
    "onVisibleIndexesChanged (props s)" "dataProvider (props s) \<noteq> None"
    "layoutProvider (props s) \<noteq> None" "allReturn c"
  shows "raised (this_onSizeChanged c layout s) = None"
proof -
  have a: "raised (andThen (this_initTrackers c s')
                     (\<lambda>_ s2. Return () (this_processOnEndReached c s2))) = None"
    if "props s' = props s" for s'
  proof -
    from assms(4,5) obtain dp lp
      where "dataProvider (props s) = Some dp" "layoutProvider (props s) = Some lp" by auto
    with initTrackers_ok [of s' dp lp c] assms(3,6) that
    obtain s2 where "this_initTrackers c s' = Return () s2" by auto
    then show ?thesis by simp
  qed
  have b: "raised (this_checkAndChangeLayouts c (props s) True s') = None"
    if "props s' = props s" for s'
  proof -
    from assms(4) obtain dp where "dataProvider (props s) = Some dp" by auto
    with checkAndChangeLayouts_ok [of s' "props s" dp c] assms(3,6) that
    obtain s2 where "this_checkAndChangeLayouts c (props s) True s' = Return () s2" by auto
    then show ?thesis by simp
  qed
  have d: "raised (this_refreshViewability c s') = None" if "props s' = props s" for s'
    using refreshViewability_raised_None [of s' c] assms that by auto
  from assms(1,2) show ?thesis
    by (simp add: this_onSizeChanged_def Let_def a b d)
qed

text \<open>
  Claim C1, as the code has it. \<^verbatim>\<open>_onSizeChanged\<close> given a viewport whose
  height or width is zero throws the layout exception at once: the new size
  has been stored and nothing else has changed. A negative dimension that is
  not zero passes the check: with a height and a width other than zero the call
  throws the layout exception only if a collaborator throws it, and it throws
  nothing at all when the collaborators return, both providers are present and
  the visibility callback prop is present (so that no callback from the
  renderer can fail).
\<close>

theorem onSizeChanged_layoutException:
  "(height layout = 0 \<or> width layout = 0
      \<longrightarrow> this_onSizeChanged c layout s =
            Throw layoutException
              (s\<lparr>this_layout := \<lparr> height = height layout, width = width layout \<rparr>\<rparr>))
   \<and> (height layout \<noteq> 0 \<and> width layout \<noteq> 0 \<and> neverRaise layoutException c
      \<longrightarrow> raised (this_onSizeChanged c layout s) \<noteq> Some layoutException)
   \<and> (height layout \<noteq> 0 \<and> width layout \<noteq> 0 \<and> allReturn c
        \<and> dataProvider (props s) \<noteq> None \<and> layoutProvider (props s) \<noteq> None
        \<and> onVisibleIndexesChanged (props s)
      \<longrightarrow> raised (this_onSizeChanged c layout s) = None)"
  using onSizeChanged_zero [of layout c s] onSizeChanged_not_layoutException [of layout c s]
    onSizeChanged_ok [of layout s c]
  by blast

text \<open>C1 on the example list: a height of zero throws and leaves the list
  with the size 0 by 100; a new height of 300 throws nothing.\<close>

theorem onSizeChanged_layoutException_witness:
  "this_onSizeChanged exampleCollaborators \<lparr> height = 0, width = 100 \<rparr> exampleInstance
     = Throw layoutException (exampleInstance\<lparr>this_layout := \<lparr> height = 0, width = 100 \<rparr>\<rparr>)
   \<and> raised (this_onSizeChanged exampleCollaborators \<lparr> height = 300, width = 100 \<rparr> exampleInstance)
     = None"
  using onSizeChanged_layoutException
          [of "\<lparr> height = 0, width = 100 \<rparr>" exampleCollaborators exampleInstance]
        onSizeChanged_layoutException
          [of "\<lparr> height = 300, width = 100 \<rparr>" exampleCollaborators exampleInstance]
  by simp

text \<open>C1 as stated fails: a viewport of width -5 is accepted.\<close>

theorem onSizeChanged_negative_width_counterexample:
  "raised (this_onSizeChanged exampleCollaborators \<lparr> height = 120, width = - 5 \<rparr> exampleInstance)
     = None"
  by (rule onSizeChanged_ok) simp_all

subsection \<open>The non-deterministic-sizing check\<close>

text \<open>
  Claim C2, as the code has it. With a layout manager and a layout provider,
  \<^verbatim>\<open>_checkExpectedDimensionDiscrepancy\<close> for a measured rectangle returns, and it
  sets the pending re-layout cursor (to the index when the cursor is empty, to
  the smaller of the two otherwise) exactly when the rectangle's height or width
  differs from the declared, max-bounded size, whichever of the two is larger;
  when both are equal the cursor is left as it was.
\<close>

theorem checkExpectedDimensionDiscrepancy_cursor:
  assumes "getLayoutManager c (this_virtualRenderer s)"
    and "layoutProvider (props s) = Some lp"
  shows
    "let declared =
           setMaxBounds c
             (setLayoutForType lp type
                (setMaxBounds c (this_tempDim s) (this_virtualRenderer s)) index)
             (this_virtualRenderer s);
         r = this_checkExpectedDimensionDiscrepancy c (Some itemRect) type index s
     in raised r = None
        \<and> this_relayoutReqIndex (after r) =
            (if height itemRect \<noteq> height declared \<or> width itemRect \<noteq> width declared
             then (if this_relayoutReqIndex s = - 1 then index
                   else min (this_relayoutReqIndex s) index)
             else this_relayoutReqIndex s)"
  using assms by (simp add: this_checkExpectedDimensionDiscrepancy_def Let_def)

text \<open>C2 on the example list, declared size 50 by 50: a rectangle
  of 50 by 50 leaves the cursor empty, one of 60 by 50 sets it.\<close>

theorem checkExpectedDimensionDiscrepancy_cursor_witness:
  "this_relayoutReqIndex
     (after (this_checkExpectedDimensionDiscrepancy exampleCollaborators
               (Some \<lparr> height = 50, width = 50 \<rparr>) (TNumber 0) 2 exampleInstance)) = - 1
   \<and> this_relayoutReqIndex
     (after (this_checkExpectedDimensionDiscrepancy exampleCollaborators
               (Some \<lparr> height = 60, width = 50 \<rparr>) (TNumber 0) 2 exampleInstance)) = 2"
  using checkExpectedDimensionDiscrepancy_cursor
          [where c = exampleCollaborators and s = exampleInstance
             and lp = exampleLayoutProvider and type = "TNumber 0" and index = 2
             and itemRect = "\<lparr> height = 50, width = 50 \<rparr>"]
        checkExpectedDimensionDiscrepancy_cursor
          [where c = exampleCollaborators and s = exampleInstance
             and lp = exampleLayoutProvider and type = "TNumber 0" and index = 2
             and itemRect = "\<lparr> height = 60, width = 50 \<rparr>"]
  by (simp add: exampleInstance_def exampleProps_def RecyclerListView_new_def
        exampleCollaborators_def exampleRenderer_def exampleLayoutProvider_def Let_def)

text \<open>C2 as stated fails: a rectangle of 40 by 50, smaller than the
  declared 50 by 50, sets the empty cursor to its index.\<close>

theorem checkExpectedDimensionDiscrepancy_smaller_counterexample:
  "this_relayoutReqIndex exampleInstance = - 1
   \<and> setLayoutForType exampleLayoutProvider (TNumber 0) (this_tempDim exampleInstance) 2
       = \<lparr> height = 50, width = 50 \<rparr>
   \<and> this_relayoutReqIndex
       (after (this_checkExpectedDimensionDiscrepancy exampleCollaborators
                 (Some \<lparr> height = 40, width = 50 \<rparr>) (TNumber 0) 2 exampleInstance)) = 2"
  by (simp add: this_checkExpectedDimensionDiscrepancy_def exampleInstance_def exampleProps_def
        RecyclerListView_new_def exampleCollaborators_def exampleRenderer_def
        exampleLayoutProvider_def Let_def)

subsection \<open>Rendering a row\<close>

lemma assertType_raised:
  "raised (this_assertType t s) =
     (if t = TUndefined \<or> t = TNull \<or> t = TString [] \<or> t = TNaN
      then Some itemTypeNullException else None)"
  by (cases t) (simp_all add: this_assertType_def)

lemma assertType_after [simp]: "after (this_assertType t s) = s"
  by (simp add: this_assertType_def)

lemma checkExpectedDimensionDiscrepancy_not_itemTypeNull [simp]:
  "raised (this_checkExpectedDimensionDiscrepancy c r t i s) \<noteq> Some itemTypeNullException"
  by (simp add: this_checkExpectedDimensionDiscrepancy_def Let_def split: option.splits)

text \<open>
  Claim C6, as the code has it. \<^verbatim>\<open>_assertType\<close> raises the item-type exception
  exactly for \<^verbatim>\<open>undefined\<close>, \<^verbatim>\<open>null\<close>, the empty string and \<^verbatim>\<open>NaN\<close>; every
  other number (0 too) and every other string passes. For a render-stack entry
  whose \<^verbatim>\<open>dataIndex\<close> is not 0 and is below the data size, with the providers
  and a layout manager present, rendering the row raises that exception exactly
  when the type oracle answers one of these four for the index. (An entry of
  index 0 is not covered: it never reaches the type check.)
\<close>

theorem renderRow_itemTypeNull:
  "((raised (this_assertType t s) = Some itemTypeNullException)
       = (t = TUndefined \<or> t = TNull \<or> t = TString [] \<or> t = TNaN))
   \<and> (dataProvider (props s) = Some dp \<and> layoutProvider (props s) = Some lp
        \<and> getLayoutManager c (this_virtualRenderer s)
        \<and> dataIndex itemMeta = Some i \<and> i \<noteq> 0 \<and> i < getSize dp
      \<longrightarrow> (raised (this_renderRowUsingMeta c itemMeta s) = Some itemTypeNullException)
            = (getLayoutTypeForIndex lp i = TUndefined \<or> getLayoutTypeForIndex lp i = TNull
               \<or> getLayoutTypeForIndex lp i = TString []
               \<or> getLayoutTypeForIndex lp i = TNaN))"
proof (intro conjI impI)
  show "(raised (this_assertType t s) = Some itemTypeNullException)
          = (t = TUndefined \<or> t = TNull \<or> t = TString [] \<or> t = TNaN)"
    by (simp add: assertType_raised)
next
  assume a: "dataProvider (props s) = Some dp \<and> layoutProvider (props s) = Some lp
        \<and> getLayoutManager c (this_virtualRenderer s)
        \<and> dataIndex itemMeta = Some i \<and> i \<noteq> 0 \<and> i < getSize dp"
  let ?t = "getLayoutTypeForIndex lp i"
  show "(raised (this_renderRowUsingMeta c itemMeta s) = Some itemTypeNullException)
            = (?t = TUndefined \<or> ?t = TNull \<or> ?t = TString [] \<or> ?t = TNaN)"
  proof (cases "this_assertType ?t s")
    case (Throw e s')
    then have "e = itemTypeNullException"
      "?t = TUndefined \<or> ?t = TNull \<or> ?t = TString [] \<or> ?t = TNaN"
      using assertType_raised [of ?t s] by (simp_all split: if_splits)
    with a Throw show ?thesis
      by (simp add: this_renderRowUsingMeta_def Let_def)
  next
    case (Return u s')
    then have ok: "\<not> (?t = TUndefined \<or> ?t = TNull \<or> ?t = TString [] \<or> ?t = TNaN)"
      using assertType_raised [of ?t s] by (simp split: if_splits)
    have "raised (this_renderRowUsingMeta c itemMeta s) \<noteq> Some itemTypeNullException"
      using a Return
      by (simp add: this_renderRowUsingMeta_def Let_def andThen_not_raised split: option.splits)
    with ok show ?thesis by simp
  qed
qed

text \<open>C6 on the example list: row 1 has the type 0 and its rendering
  does not raise the item-type exception.\<close>

theorem renderRow_itemTypeNull_witness:
  "raised (this_renderRowUsingMeta exampleCollaborators
             \<lparr> key = ''a'', dataIndex = Some 1 \<rparr> exampleInstance) \<noteq> Some itemTypeNullException
   \<and> getLayoutTypeForIndex exampleLayoutProvider 1 = TNumber 0"
  using renderRow_itemTypeNull
          [where c = exampleCollaborators and s = exampleInstance and lp = exampleLayoutProvider
             and dp = exampleDataProvider and i = 1
             and itemMeta = "\<lparr> key = ''a'', dataIndex = Some 1 \<rparr>"]
  by (simp add: exampleInstance_def exampleProps_def RecyclerListView_new_def
        exampleCollaborators_def exampleRenderer_def exampleLayoutProvider_def
        exampleDataProvider_def)

text \<open>C6 as stated fails: row 3 has a defined type, the empty
  string, and its rendering raises the item-type exception.\<close>

theorem renderRow_empty_string_type_counterexample:
  "getLayoutTypeForIndex exampleLayoutProvider 3 = TString []
   \<and> raised (this_renderRowUsingMeta exampleCollaborators
               \<lparr> key = ''c'', dataIndex = Some 3 \<rparr> exampleInstance)
       = Some itemTypeNullException"
  by (simp add: this_renderRowUsingMeta_def this_assertType_def andThen_def
        exampleInstance_def exampleProps_def RecyclerListView_new_def
        exampleCollaborators_def exampleRenderer_def exampleLayoutProvider_def
        exampleDataProvider_def Let_def)

text \<open>
  Claim C9. With a data provider present, \<^verbatim>\<open>_renderRowUsingMeta\<close> returns
  \<^verbatim>\<open>null\<close> and leaves the instance as it was for every entry whose
  \<^verbatim>\<open>dataIndex\<close> is \<^verbatim>\<open>undefined\<close>, is 0, or is not below the data size. In
  particular the row of index 0 is never rendered.
\<close>

theorem renderRow_null:
  assumes "dataProvider (props s) = Some dp"
    and "dataIndex itemMeta = None \<or> dataIndex itemMeta = Some 0
         \<or> (\<exists>i. dataIndex itemMeta = Some i \<and> \<not> i < getSize dp)"
  shows "this_renderRowUsingMeta c itemMeta s = Return None s"
  using assms by (auto simp: this_renderRowUsingMeta_def)

text \<open>C9 on the example list of four rows: the entry of index 0 renders
  as \<^verbatim>\<open>null\<close>.\<close>

theorem renderRow_null_witness:
  "this_renderRowUsingMeta exampleCollaborators \<lparr> key = ''z'', dataIndex = Some 0 \<rparr> exampleInstance
     = Return None exampleInstance
   \<and> 0 < getSize exampleDataProvider"
  using renderRow_null
          [where c = exampleCollaborators and s = exampleInstance and dp = exampleDataProvider
             and itemMeta = "\<lparr> key = ''z'', dataIndex = Some 0 \<rparr>"]
  by (simp add: exampleInstance_def exampleProps_def RecyclerListView_new_def
        exampleDataProvider_def)

subsection \<open>The pending re-layout cursor\<close>

lemma stateRefresh_frame [simp]:
  "props (stateRefresh s) = props s"
  "this_relayoutReqIndex (stateRefresh s) = this_relayoutReqIndex s"
  "this_virtualRenderer (stateRefresh s) = this_virtualRenderer s"
  "newLayoutManagers (stateRefresh s) = newLayoutManagers s"
  "refreshRequestDebouncer (stateRefresh s) = refreshRequestDebouncer s"
  "setStateCalls (stateRefresh s) = Suc (setStateCalls s)"
  by (simp_all add: stateRefresh_def)

lemma queueStateRefresh_frame [simp]:
  "props (this_queueStateRefresh s) = props s"
  "this_relayoutReqIndex (this_queueStateRefresh s) = this_relayoutReqIndex s"
  "this_virtualRenderer (this_queueStateRefresh s) = this_virtualRenderer s"
  "newLayoutManagers (this_queueStateRefresh s) = newLayoutManagers s"
  by (simp_all add: this_queueStateRefresh_def debounce_call_def Let_def)




lemma deliver_cursor [simp]:
  "this_relayoutReqIndex (after (deliver cs s)) = this_relayoutReqIndex s"
proof (induction cs s rule: deliver.induct)
  case (4 allv now notNow cs s)
  then show ?case
    by (simp add: this_onVisibleItemsChanged_def)
qed (simp_all add: this_renderStackWhenReady_def)

lemma callRenderer_cursor [simp]:
  "this_relayoutReqIndex (after (callRenderer m s)) = this_relayoutReqIndex s"
proof (cases "m (this_virtualRenderer s)")
  case (Reply cs eo v)
  from deliver_cursor [of cs "s\<lparr>this_virtualRenderer := v\<rparr>"] Reply show ?thesis
    by (cases "deliver cs (s\<lparr>this_virtualRenderer := v\<rparr>)"; cases eo)
       (simp_all add: callRenderer_def)
qed

lemma refreshViewability_cursor [simp]:
  "this_relayoutReqIndex (after (this_refreshViewability c s)) = this_relayoutReqIndex s"
  using callRenderer_cursor [of "refresh c" s]
  by (cases "callRenderer (refresh c) s") (simp_all add: this_refreshViewability_def)



subsection \<open>The end-reached latch\<close>

lemma processOnEndReached_step:
  assumes "onEndReached (props s)"
  shows "this_processOnEndReached c s =
           (if withinEndThreshold c (props s) (this_virtualRenderer s) (this_layout s)
            then (if \<not> this_onEndReachedCalled s
                  then s\<lparr>this_onEndReachedCalled := True,
                         onEndReachedCalls := Suc (onEndReachedCalls s)\<rparr>
                  else s)
            else s\<lparr>this_onEndReachedCalled := False\<rparr>)"
  using assms by (simp add: this_processOnEndReached_def withinEndThreshold_def Let_def)

lemma endReachedEvents_latched:
  assumes "onEndReached (props s)" and "this_onEndReachedCalled s"
    and "\<forall>e\<in>set es. withinEndThreshold c (props s) (fst e) (snd e)"
  shows "onEndReachedCalls (endReachedEvents c es s) = onEndReachedCalls s
         \<and> this_onEndReachedCalled (endReachedEvents c es s)"
  using assms
proof (induction es arbitrary: s)
  case Nil
  then show ?case by simp
next
  case (Cons e es)
  let ?s0 = "s\<lparr>this_virtualRenderer := fst e, this_layout := snd e\<rparr>"
  have step: "this_processOnEndReached c ?s0 = ?s0"
    using Cons.prems by (simp add: processOnEndReached_step)
  have "onEndReachedCalls (endReachedEvents c es ?s0) = onEndReachedCalls ?s0
        \<and> this_onEndReachedCalled (endReachedEvents c es ?s0)"
    using Cons.prems by (intro Cons.IH) simp_all
  then show ?case by (simp add: step)
qed

lemma endReachedEvents_unlatched:
  assumes "onEndReached (props s)" and "\<not> this_onEndReachedCalled s" and "es \<noteq> []"
    and "\<forall>e\<in>set es. withinEndThreshold c (props s) (fst e) (snd e)"
  shows "onEndReachedCalls (endReachedEvents c es s) = Suc (onEndReachedCalls s)
         \<and> this_onEndReachedCalled (endReachedEvents c es s)"
proof (cases es)
  case Nil
  with assms(3) show ?thesis by simp
next
  case (Cons e rest)
  let ?s0 = "s\<lparr>this_virtualRenderer := fst e, this_layout := snd e\<rparr>"
  let ?s1 = "?s0\<lparr>this_onEndReachedCalled := True,
                  onEndReachedCalls := Suc (onEndReachedCalls ?s0)\<rparr>"
  have step: "this_processOnEndReached c ?s0 = ?s1"
    using assms Cons by (simp add: processOnEndReached_step)
  have "onEndReachedCalls (endReachedEvents c rest ?s1) = onEndReachedCalls ?s1
        \<and> this_onEndReachedCalled (endReachedEvents c rest ?s1)"
    using assms Cons by (intro endReachedEvents_latched) simp_all
  then show ?thesis using Cons by (simp add: step)
qed

text \<open>
  Claim C10. With an \<^verbatim>\<open>onEndReached\<close> callback present: from the unlatched
  state, any non-empty run of events that all observe the distance
  \<^verbatim>\<open>windowBound - lastOffset\<close> at or below the threshold calls the callback
  exactly once and leaves the latch set; from the latched state such a run
  calls it not at all; and an event that observes the distance strictly above
  the threshold calls nothing and resets the latch. (\<^verbatim>\<open>windowBound\<close> is the
  content extent minus the viewport extent along the scroll axis.)
\<close>

theorem onEndReached_latched:
  assumes "onEndReached (props s)"
  shows
    "(\<not> this_onEndReachedCalled s \<and> es \<noteq> []
        \<and> (\<forall>e\<in>set es. withinEndThreshold c (props s) (fst e) (snd e))
      \<longrightarrow> onEndReachedCalls (endReachedEvents c es s) = Suc (onEndReachedCalls s)
          \<and> this_onEndReachedCalled (endReachedEvents c es s))
     \<and> (this_onEndReachedCalled s
        \<and> (\<forall>e\<in>set es. withinEndThreshold c (props s) (fst e) (snd e))
      \<longrightarrow> onEndReachedCalls (endReachedEvents c es s) = onEndReachedCalls s
          \<and> this_onEndReachedCalled (endReachedEvents c es s))
     \<and> (\<not> withinEndThreshold c (props s) v viewport
      \<longrightarrow> onEndReachedCalls (endReachedEvents c [(v, viewport)] s) = onEndReachedCalls s
          \<and> \<not> this_onEndReachedCalled (endReachedEvents c [(v, viewport)] s))"
  using endReachedEvents_unlatched [OF assms, of es c]
    endReachedEvents_latched [OF assms, of es c] assms
  by (simp add: processOnEndReached_step)

lemma example_withinEndThreshold [simp]:
  "withinEndThreshold exampleCollaborators exampleProps (exampleScrolledTo offset)
     \<lparr> height = 120, width = 100 \<rparr> = (80 \<le> offset)"
  by (auto simp add: withinEndThreshold_def exampleScrolledTo_def
        LayoutEngine_getLayoutDimension_def exampleLayouts_def)

text \<open>C10 on the example list (content 200 high, viewport 120 high,
  threshold 0): scrolled to 80 and then to 100 the callback has been called
  once; a scroll back to 10 resets the latch without a call.\<close>

theorem onEndReached_latched_witness:
  "onEndReachedCalls
     (endReachedEvents exampleCollaborators
        [(exampleScrolledTo 80, \<lparr> height = 120, width = 100 \<rparr>),
         (exampleScrolledTo 100, \<lparr> height = 120, width = 100 \<rparr>)] exampleInstance) = 1
   \<and> onEndReachedCalls
       (endReachedEvents exampleCollaborators
          [(exampleScrolledTo 10, \<lparr> height = 120, width = 100 \<rparr>)] exampleInstance) = 0
   \<and> \<not> this_onEndReachedCalled
       (endReachedEvents exampleCollaborators
          [(exampleScrolledTo 10, \<lparr> height = 120, width = 100 \<rparr>)] exampleInstance)"
  using onEndReached_latched
          [where c = exampleCollaborators and s = exampleInstance
             and es = "[(exampleScrolledTo 80, \<lparr> height = 120, width = 100 \<rparr>),
                        (exampleScrolledTo 100, \<lparr> height = 120, width = 100 \<rparr>)]"
             and v = "exampleScrolledTo 10" and viewport = "\<lparr> height = 120, width = 100 \<rparr>"]
  by (simp del: endReachedEvents.simps)

subsection \<open>Scrolling to an index\<close>

text \<open>
  Claim C5. \<^verbatim>\<open>scrollToIndex\<close> reports an index outside the range to its caller
  only when the renderer holds a layout manager. Then whatever error
  \<^verbatim>\<open>getOffsetForIndex\<close> throws reaches the caller, no scroll command has been
  issued, and the instance differs from the one before the call by nothing but
  what \<^verbatim>\<open>getOffsetForIndex\<close> itself did to the renderer; with the layout
  manager's \<^verbatim>\<open>getOffsetForIndex\<close> as the specification describes it, an index
  below 0 or not below the item count makes \<^verbatim>\<open>scrollToIndex\<close> throw
  \<^verbatim>\<open>OutOfRange\<close> and leave the instance exactly as it was, and so does
  \<^verbatim>\<open>scrollToEnd\<close> when the index \<^verbatim>\<open>getSize() - 1\<close> it computes is out of range.
  When the renderer holds no layout manager, \<^verbatim>\<open>scrollToIndex\<close> returns normally
  for every index, in range or not: it writes a warning to the console, and
  nothing else of the instance changes.
\<close>

theorem scrollToIndex_out_of_range:
  "(getLayoutManager c (this_virtualRenderer s)
      \<and> getOffsetForIndex c index (this_virtualRenderer s) = (Inl e, v)
    \<longrightarrow> scrollToIndex c index animate s = Throw e (s\<lparr>this_virtualRenderer := v\<rparr>))
   \<and> (getLayoutManager c (this_virtualRenderer s)
      \<and> getOffsetForIndex c = (\<lambda>i v. (LayoutEngine_getOffsetForIndex (getLayouts c v) i, v))
      \<and> (index < 0 \<or> int (length (getLayouts c (this_virtualRenderer s))) \<le> index)
    \<longrightarrow> scrollToIndex c index animate s = Throw OutOfRange s)
   \<and> (getLayoutManager c (this_virtualRenderer s)
      \<and> getOffsetForIndex c = (\<lambda>i v. (LayoutEngine_getOffsetForIndex (getLayouts c v) i, v))
      \<and> dataProvider (props s) = Some dp
      \<and> (getSize dp - 1 < 0
         \<or> int (length (getLayouts c (this_virtualRenderer s))) \<le> getSize dp - 1)
    \<longrightarrow> scrollToEnd c animate s = Throw OutOfRange s)
   \<and> (\<not> getLayoutManager c (this_virtualRenderer s)
    \<longrightarrow> scrollToIndex c index animate s = Return () (s\<lparr>warnings := Suc (warnings s)\<rparr>))"
proof -
  have same: "s\<lparr>this_virtualRenderer := this_virtualRenderer s\<rparr> = s" by simp
  have general: "scrollToIndex c index animate s = Throw e (s\<lparr>this_virtualRenderer := v\<rparr>)"
    if "getLayoutManager c (this_virtualRenderer s)"
      and "getOffsetForIndex c index (this_virtualRenderer s) = (Inl e, v)"
    using that by (simp add: scrollToIndex_def)
  have modelled: "scrollToIndex c i animate s = Throw OutOfRange s"
    if "getLayoutManager c (this_virtualRenderer s)"
      and "getOffsetForIndex c = (\<lambda>i v. (LayoutEngine_getOffsetForIndex (getLayouts c v) i, v))"
      and "i < 0 \<or> int (length (getLayouts c (this_virtualRenderer s))) \<le> i" for i
    using that same by (auto simp add: scrollToIndex_def LayoutEngine_getOffsetForIndex_def)
  have absent: "scrollToIndex c index animate s = Return () (s\<lparr>warnings := Suc (warnings s)\<rparr>)"
    if "\<not> getLayoutManager c (this_virtualRenderer s)"
    using that by (simp add: scrollToIndex_def)
  have toEnd: "scrollToEnd c animate s = Throw OutOfRange s"
    if "getLayoutManager c (this_virtualRenderer s)"
      and "getOffsetForIndex c = (\<lambda>i v. (LayoutEngine_getOffsetForIndex (getLayouts c v) i, v))"
      and "dataProvider (props s) = Some dp"
      and "getSize dp - 1 < 0
           \<or> int (length (getLayouts c (this_virtualRenderer s))) \<le> getSize dp - 1"
    using modelled [OF that(1,2,4)] that(3) by (simp add: scrollToEnd_def)
  from general modelled absent toEnd show ?thesis by blast
qed

text \<open>C5 on the example list of four rows: the indexes 4 and -1 are refused
  and the instance is unchanged; on the list just constructed, which has no
  layout manager yet, the index 4 is answered with a warning.\<close>

theorem scrollToIndex_out_of_range_witness:
  "scrollToIndex exampleCollaborators 4 None exampleInstance = Throw OutOfRange exampleInstance
   \<and> scrollToIndex exampleCollaborators (- 1) (Some True) exampleInstance
       = Throw OutOfRange exampleInstance
   \<and> scrollToIndex exampleCollaborators 4 None
       (RecyclerListView_new exampleCollaborators exampleProps)
       = Return () ((RecyclerListView_new exampleCollaborators exampleProps)\<lparr>warnings := 1\<rparr>)"
proof -
  let ?new = "RecyclerListView_new exampleCollaborators exampleProps"
  have modelled: "getOffsetForIndex exampleCollaborators =
      (\<lambda>i v. (LayoutEngine_getOffsetForIndex (getLayouts exampleCollaborators v) i, v))"
    by (simp add: fun_eq_iff)
  have absent: "\<not> getLayoutManager exampleCollaborators (this_virtualRenderer ?new)"
    and none: "warnings ?new = 0"
    by (simp_all add: RecyclerListView_new_def exampleCollaborators_def)
  have "scrollToIndex exampleCollaborators 4 None exampleInstance
          = Throw OutOfRange exampleInstance"
    using scrollToIndex_out_of_range
            [where c = exampleCollaborators and s = exampleInstance and index = 4
               and animate = None] modelled
    by simp
  moreover have "scrollToIndex exampleCollaborators (- 1) (Some True) exampleInstance
          = Throw OutOfRange exampleInstance"
    using scrollToIndex_out_of_range
            [where c = exampleCollaborators and s = exampleInstance and index = "- 1"
               and animate = "Some True"] modelled
    by simp
  moreover have "scrollToIndex exampleCollaborators 4 None ?new
          = Return () (?new\<lparr>warnings := 1\<rparr>)"
    using scrollToIndex_out_of_range
            [where c = exampleCollaborators and s = ?new and index = 4 and animate = None]
      absent none
    by simp
  ultimately show ?thesis by simp
qed

text \<open>C5 as stated fails: on the list just constructed the index -1, outside
  every range, is not reported: the call returns.\<close>

theorem scrollToIndex_no_layout_manager_counterexample:
  "raised (scrollToIndex exampleCollaborators (- 1) None
             (RecyclerListView_new exampleCollaborators exampleProps)) = None"
  by (simp add: scrollToIndex_def RecyclerListView_new_def exampleCollaborators_def)

subsection \<open>Scroll events\<close>

text \<open>
  Claim C7, with the renderer's \<^verbatim>\<open>updateOffset\<close> as the specification
  describes the scroll event. With the visibility callback prop present and
  the observer attached, \<^verbatim>\<open>_onScroll\<close> returns; the window state then holds
  the new offset along the scroll axis, the required and the visible set are
  the ones of that window, and \<^verbatim>\<open>onVisibleIndexesChanged\<close> has been called once
  more, with the visible indexes, those newly visible and those no longer
  visible, if the visible set differs from the one of the previous call, and
  not at all if it does not.
\<close>

theorem onScroll_visibility:
  assumes "updateOffset c = Renderer_updateOffset"
    and "onVisibleIndexesChanged (props s)"
    and "observer (this_virtualRenderer s)"
  shows
    "let m = this_virtualRenderer s;
         ls = (case layoutArray m of None \<Rightarrow> [] | Some l \<Rightarrow> l);
         w = (window m)\<lparr>scrollOffset := (if horizontal m then offsetX else offsetY)\<rparr>;
         vis = visibleIndexes (horizontal m) ls w;
         r = this_onScroll c offsetX offsetY rawEvent s
     in raised r = None
        \<and> window (this_virtualRenderer (after r)) = w
        \<and> requiredSet (this_virtualRenderer (after r)) = requiredIndexes (horizontal m) ls w
        \<and> visibleSet (this_virtualRenderer (after r)) = vis
        \<and> onVisibleIndexesChangedCalls (after r) =
            onVisibleIndexesChangedCalls s @
              (if set vis \<noteq> set (visibleSet m)
               then [(vis, filter (\<lambda>i. i \<notin> set (visibleSet m)) vis,
                      filter (\<lambda>i. i \<notin> set vis) (visibleSet m))]
               else [])"
  using assms
  by (simp add: this_onScroll_def callRenderer_def returned_def Renderer_updateOffset_def
        Coordinator_onScroll_def this_onVisibleItemsChanged_def Let_def)

lemma example_visible_60:
  "visibleIndexes False exampleLayouts
     \<lparr> scrollOffset = 60, viewportSize = 120, renderAheadDistance = 250 \<rparr> = [1, 2, 3]"
  by (simp add: visibleIndexes_def exampleLayouts_def trailingEdge_def leadingEdge_def upt_rec)

text \<open>C7 on the example list, rows 0 to 2 visible: a scroll to 60 makes the
  rows 1 to 3 visible and the callback is called with ([1, 2, 3], [3], [0]).\<close>

theorem onScroll_visibility_witness:
  "onVisibleIndexesChangedCalls
     (after (this_onScroll exampleCollaborators 0 60 (0, 60) exampleInstance))
     = [([1, 2, 3], [3], [0])]
   \<and> scrollOffset (window (this_virtualRenderer
        (after (this_onScroll exampleCollaborators 0 60 (0, 60) exampleInstance)))) = 60"
proof -
  have "(3 :: int) \<in> {1, 2, 3}" and "(3 :: int) \<notin> {0, 1, 2}" by simp_all
  then have differ: "({1, 2, 3} :: int set) \<noteq> {0, 1, 2}" by metis
  from onScroll_visibility
         [where c = exampleCollaborators and s = exampleInstance and offsetX = 0
            and offsetY = 60 and rawEvent = "(0, 60)"]
  show ?thesis
    by (simp add: Let_def example_visible_60 differ)
qed

subsection \<open>The debounced state refresh\<close>

lemma refreshEvents_append:
  "refreshEvents (es @ es') s = refreshEvents es' (refreshEvents es s)"
  by (induction es s rule: refreshEvents.induct) simp_all

lemma queueStateRefresh_idle:
  assumes "refreshRequestDebouncer s = \<lparr> timerRuns = False, callWaits = False \<rparr>"
  shows "this_queueStateRefresh s =
           s\<lparr>refreshRequests := Suc (refreshRequests s),
             refreshRequestDebouncer := \<lparr> timerRuns = True, callWaits = True \<rparr>\<rparr>"
  using assms by (simp add: this_queueStateRefresh_def debounce_call_def)

lemma queueStateRefresh_waiting:
  "this_queueStateRefresh
     (s\<lparr>refreshRequestDebouncer := \<lparr> timerRuns = True, callWaits = True \<rparr>\<rparr>) =
   s\<lparr>refreshRequests := Suc (refreshRequests s),
     refreshRequestDebouncer := \<lparr> timerRuns = True, callWaits = True \<rparr>\<rparr>"
  by (simp add: this_queueStateRefresh_def debounce_call_def)

lemma refreshRequests_waiting:
  "refreshEvents (replicate n RefreshRequest)
     (s\<lparr>refreshRequestDebouncer := \<lparr> timerRuns = True, callWaits = True \<rparr>\<rparr>) =
   s\<lparr>refreshRequests := refreshRequests s + n,
     refreshRequestDebouncer := \<lparr> timerRuns = True, callWaits = True \<rparr>\<rparr>"
proof (induction n arbitrary: s)
  case 0
  show ?case by simp
next
  case (Suc n)
  have "refreshEvents (replicate (Suc n) RefreshRequest)
          (s\<lparr>refreshRequestDebouncer := \<lparr> timerRuns = True, callWaits = True \<rparr>\<rparr>) =
        refreshEvents (replicate n RefreshRequest)
          ((s\<lparr>refreshRequests := Suc (refreshRequests s)\<rparr>)
             \<lparr>refreshRequestDebouncer := \<lparr> timerRuns = True, callWaits = True \<rparr>\<rparr>)"
    by (simp add: queueStateRefresh_waiting)
  also have "\<dots> = (s\<lparr>refreshRequests := Suc (refreshRequests s)\<rparr>)
          \<lparr>refreshRequests := refreshRequests (s\<lparr>refreshRequests := Suc (refreshRequests s)\<rparr>) + n,
            refreshRequestDebouncer := \<lparr> timerRuns = True, callWaits = True \<rparr>\<rparr>"
    by (rule Suc.IH)
  finally show ?case by simp
qed

lemma refreshTimerExpired_waiting:
  "refreshTimerExpired
     (s\<lparr>refreshRequestDebouncer := \<lparr> timerRuns = True, callWaits = True \<rparr>\<rparr>) =
   s\<lparr>refreshRequestDebouncer := \<lparr> timerRuns = False, callWaits = False \<rparr>,
     setStateCalls := Suc (setStateCalls s)\<rparr>"
  by (simp add: refreshTimerExpired_def debounce_timerExpired_def stateRefresh_def)

text \<open>
  Claim C8. The debouncer is \<^verbatim>\<open>debounce\<close> of \<^verbatim>\<open>lodash-es\<close> made with no options,
  so it runs on the trailing edge, not the leading one. From the idle debouncer,
  a burst of n requests (\<^verbatim>\<open>_queueStateRefresh\<close> calls, n at least 1) with no
  expiry of the timer in between executes no state refresh at all, the first
  request included: it only counts the requests and leaves the timer running
  with one call waiting. When the timer then expires (the wait has passed since
  the last request of the burst) exactly one state refresh is executed, and the
  debouncer is idle again. Nothing else of the instance changes.
\<close>

theorem queueStateRefresh_trailing_edge:
  assumes "refreshRequestDebouncer s = \<lparr> timerRuns = False, callWaits = False \<rparr>"
    and "0 < n"
  shows
    "refreshEvents (replicate n RefreshRequest) s =
       s\<lparr>refreshRequests := refreshRequests s + n,
         refreshRequestDebouncer := \<lparr> timerRuns = True, callWaits = True \<rparr>\<rparr>
     \<and> refreshEvents (replicate n RefreshRequest @ [TimerExpires]) s =
         s\<lparr>refreshRequests := refreshRequests s + n,
           refreshRequestDebouncer := \<lparr> timerRuns = False, callWaits = False \<rparr>,
           setStateCalls := Suc (setStateCalls s)\<rparr>"
proof -
  from assms(2) obtain m where n: "n = Suc m" by (cases n) simp_all
  have burst: "refreshEvents (replicate n RefreshRequest) s =
       s\<lparr>refreshRequests := refreshRequests s + n,
         refreshRequestDebouncer := \<lparr> timerRuns = True, callWaits = True \<rparr>\<rparr>"
    using refreshRequests_waiting [of m "s\<lparr>refreshRequests := Suc (refreshRequests s)\<rparr>"]
    by (simp add: n queueStateRefresh_idle [OF assms(1)])
  have "refreshEvents (replicate n RefreshRequest @ [TimerExpires]) s =
      refreshTimerExpired
        ((s\<lparr>refreshRequests := refreshRequests s + n\<rparr>)
           \<lparr>refreshRequestDebouncer := \<lparr> timerRuns = True, callWaits = True \<rparr>\<rparr>)"
    by (simp add: refreshEvents_append burst)
  also have "\<dots> = (s\<lparr>refreshRequests := refreshRequests s + n\<rparr>)
       \<lparr>refreshRequestDebouncer := \<lparr> timerRuns = False, callWaits = False \<rparr>,
         setStateCalls := Suc (setStateCalls (s\<lparr>refreshRequests := refreshRequests s + n\<rparr>))\<rparr>"
    by (rule refreshTimerExpired_waiting)
  finally show ?thesis using burst by simp
qed

text \<open>C8 on the example list: three requests in a row execute no state
  refresh; the expiry of the timer after them executes one.\<close>

theorem queueStateRefresh_trailing_edge_witness:
  "setStateCalls
     (refreshEvents [RefreshRequest, RefreshRequest, RefreshRequest] exampleInstance) = 0
   \<and> setStateCalls
       (refreshEvents [RefreshRequest, RefreshRequest, RefreshRequest, TimerExpires]
          exampleInstance) = 1
   \<and> refreshRequests
       (refreshEvents [RefreshRequest, RefreshRequest, RefreshRequest, TimerExpires]
          exampleInstance) = 3"
proof -
  have three: "replicate 3 RefreshRequest = [RefreshRequest, RefreshRequest, RefreshRequest]"
    by (simp add: numeral_3_eq_3)
  have none: "refreshRequests exampleInstance = 0"
    by (simp add: exampleInstance_def RecyclerListView_new_def)
  from queueStateRefresh_trailing_edge [where s = exampleInstance and n = 3]
  show ?thesis
    by (simp add: three none del: refreshEvents.simps)
qed

text \<open>C8 as stated fails: the first request of a burst does not execute
  immediately. After one request on the example list no state refresh has been
  executed.\<close>

theorem queueStateRefresh_not_leading_counterexample:
  "setStateCalls (this_queueStateRefresh exampleInstance) = 0"
  by (simp add: this_queueStateRefresh_def debounce_call_def)

subsection \<open>The stand-in for JSON reads what it wrote\<close>

lemma digitChar_isDigit: "d < 10 \<Longrightarrow> isDigit (digitChar d)"
  by (simp add: isDigit_def digitChar_def)

lemma digitChar_value: "d < 10 \<Longrightarrow> digitValue (digitChar d) = d"
  by (simp add: digitValue_def digitChar_def)

lemma showNat_digits: "\<forall>ch\<in>set (showNat n). isDigit ch"
proof (induction n rule: showNat.induct)
  case (1 n)
  show ?case
  proof (cases "n < 10")
    case True
    then show ?thesis by (subst showNat.simps) (simp add: digitChar_isDigit)
  next
    case False
    with 1 show ?thesis by (subst showNat.simps) (simp add: digitChar_isDigit)
  qed
qed

lemma showNat_not_Nil: "showNat n \<noteq> []"
  by (subst showNat.simps) simp

lemma showNat_value: "foldl (\<lambda>a ch. 10 * a + digitValue ch) 0 (showNat n) = n"
proof (induction n rule: showNat.induct)
  case (1 n)
  show ?case
  proof (cases "n < 10")
    case True
    then show ?thesis by (subst showNat.simps) (simp add: digitChar_value)
  next
    case False
    with 1 show ?thesis by (subst showNat.simps) (simp add: digitChar_value)
  qed
qed

lemma readNat_digits:
  assumes "\<forall>ch\<in>set ds. isDigit ch" and "rest = [] \<or> \<not> isDigit (hd rest)"
  shows "readNat acc (ds @ rest) = (foldl (\<lambda>a ch. 10 * a + digitValue ch) acc ds, rest)"
  using assms
proof (induction ds arbitrary: acc)
  case Nil
  then show ?case by (cases rest) simp_all
next
  case (Cons d ds)
  then show ?case by simp
qed

lemma readNat_showNat:
  assumes "rest = [] \<or> \<not> isDigit (hd rest)"
  shows "readNat 0 (showNat n @ rest) = (n, rest)"
  using readNat_digits [where ds = "showNat n" and acc = 0, OF showNat_digits assms]
  by (simp add: showNat_value)

lemma isDigit_not_minus: "isDigit ch \<Longrightarrow> ch \<noteq> CHR ''-''"
  by (auto simp add: isDigit_def)

lemma readNumber_negative:
  assumes "isDigit d" and "readNat 0 (d # ds) = (n, rest)"
  shows "readNumber (CHR ''-'' # d # ds) = Some (- real n, rest)"
  using assms by (simp add: readNumber_def del: readNat.simps)

lemma readNumber_positive:
  assumes "isDigit d" and "readNat 0 (d # ds) = (n, rest)"
  shows "readNumber (d # ds) = Some (real n, rest)"
  using assms isDigit_not_minus [OF assms(1)]
  by (simp add: readNumber_def del: readNat.simps)

lemma readNumber_showNumber:
  assumes "real_of_int \<lfloor>r\<rfloor> = r" and "rest = [] \<or> \<not> isDigit (hd rest)"
  shows "readNumber (showNumber r @ rest) = Some (r, rest)"
proof -
  define n where "n = nat \<bar>\<lfloor>r\<rfloor>\<bar>"
  obtain d ds where ds: "showNat n = d # ds"
    using showNat_not_Nil [of n] by (cases "showNat n") simp_all
  have dig: "isDigit d" using showNat_digits [of n] ds by simp
  have rd: "readNat 0 (d # (ds @ rest)) = (n, rest)"
    using readNat_showNat [OF assms(2), of n] ds by simp
  show ?thesis
  proof (cases "r < 0")
    case True
    then have fl: "\<lfloor>r\<rfloor> < 0" using assms(1) by linarith
    then have ab: "nat (- \<lfloor>r\<rfloor>) = n" by (simp add: n_def)
    have "real n = - real_of_int \<lfloor>r\<rfloor>" using fl by (simp add: n_def)
    then have val: "- real n = r" using assms(1) by simp
    have "showNumber r @ rest = CHR ''-'' # d # (ds @ rest)"
      using True ds by (simp add: showNumber_def ab)
    then show ?thesis using readNumber_negative [OF dig rd] val by simp
  next
    case False
    then have fl: "0 \<le> \<lfloor>r\<rfloor>" using assms(1) by linarith
    then have ab: "nat \<lfloor>r\<rfloor> = n" by (simp add: n_def)
    have "real n = real_of_int \<lfloor>r\<rfloor>" using fl by (simp add: n_def)
    then have val: "real n = r" using assms(1) by simp
    have "showNumber r @ rest = d # (ds @ rest)"
      using False ds by (simp add: showNumber_def ab)
    then show ?thesis using readNumber_positive [OF dig rd] val by simp
  qed
qed

lemma readNumber_showNumber_Cons:
  assumes "real_of_int \<lfloor>r\<rfloor> = r" and "\<not> isDigit ch"
  shows "readNumber (showNumber r @ ch # rest) = Some (r, ch # rest)"
  using readNumber_showNumber [OF assms(1), of "ch # rest"] assms(2) by simp

lemma separators_not_digits:
  "\<not> isDigit (CHR '','')" "\<not> isDigit (CHR ''}'')"
  by (simp_all add: isDigit_def)

lemma Rect_eq: "\<lparr> height = height r, width = width r, x = x r, y = y r \<rparr> = (r :: Rect)"
  by simp

lemma readRect_showRect:
  assumes "wholeRect r"
  shows "readRect (showRect r @ rest) = Some (r, rest)"
  using assms
  by (simp add: readRect_def showRect_def expect_def wholeRect_def
        readNumber_showNumber_Cons separators_not_digits)

lemma showRect_Cons: "\<exists>cs. showRect r = CHR ''{'' # cs"
  by (simp add: showRect_def)

lemma readMore_showRects:
  assumes "\<forall>r\<in>set rs. wholeRect r" and "length rs < k"
  shows "readMore k (concat (map (\<lambda>r. CHR '','' # showRect r) rs) @ CHR '']'' # rest)
           = Some (rs, rest)"
  using assms
proof (induction rs arbitrary: k)
  case Nil
  then obtain j where "k = Suc j" by (cases k) simp_all
  then show ?case by simp
next
  case (Cons r rs)
  then obtain j where k: "k = Suc j" and j: "length rs < j" by (cases k) simp_all
  have whole: "wholeRect r" and rest: "\<forall>r\<in>set rs. wholeRect r" using Cons.prems(1) by simp_all
  have "readMore j (concat (map (\<lambda>r. CHR '','' # showRect r) rs) @ CHR '']'' # rest)
          = Some (rs, rest)"
    using rest j by (rule Cons.IH)
  then show ?case
    using readRect_showRect [OF whole] by (simp add: k)
qed

lemma showRects_length:
  "length rs \<le> length (concat (map (\<lambda>r. CHR '','' # showRect r) rs))"
  by (induction rs) simp_all

lemma readArray_showArray:
  assumes "\<forall>r\<in>set ls. wholeRect r"
  shows "readArray (showArray ls @ rest) = Some (ls, rest)"
proof (cases ls)
  case Nil
  then show ?thesis by (simp add: readArray_def showArray_def expect_def)
next
  case (Cons r rs)
  let ?tail = "concat (map (\<lambda>r. CHR '','' # showRect r) rs) @ CHR '']'' # rest"
  have whole: "wholeRect r" and others: "\<forall>r\<in>set rs. wholeRect r"
    using assms Cons by simp_all
  obtain cs where cs: "showRect r = CHR ''{'' # cs" using showRect_Cons by blast
  have shown: "showArray ls @ rest = CHR ''['' # showRect r @ ?tail"
    by (simp add: Cons showArray_def)
  have first: "readRect (showRect r @ ?tail) = Some (r, ?tail)"
    using whole by (rule readRect_showRect)
  have "length rs < Suc (length ?tail)"
    using showRects_length [of rs] by simp
  with others have more: "readMore (Suc (length ?tail)) ?tail = Some (rs, rest)"
    by (rule readMore_showRects)
  have "readArray (CHR ''['' # showRect r @ ?tail) = Some (r # rs, rest)"
    using first more
    by (simp add: readArray_def expect_def cs del: readMore.simps)
  then have "readArray (showArray ls @ rest) = Some (r # rs, rest)" by (simp only: shown)
  then show ?thesis by (simp only: Cons)
qed

lemma JSON_round_trip:
  assumes "\<forall>r\<in>set ls. wholeRect r"
  shows "JSON_parse_layouts (JSON_stringify_layouts ls) = Inr (Some ls)"
  using readArray_showArray [OF assms, of "''}''"]
  by (simp add: JSON_parse_layouts_def JSON_stringify_layouts_def expect_def)

lemma JSON_stringify_not_empty: "JSON_stringify_layouts ls \<noteq> []"
  by (simp add: JSON_stringify_layouts_def)

subsection \<open>Saving and restoring the layouts\<close>

lemma deliver_newLayoutManagers [simp]:
  "newLayoutManagers (after (deliver cs s)) = newLayoutManagers s"
proof (induction cs s rule: deliver.induct)
  case (4 allv now notNow cs s)
  then show ?case by (simp add: this_onVisibleItemsChanged_def)
qed (simp_all add: this_renderStackWhenReady_def)

lemma callRenderer_newLayoutManagers [simp]:
  "newLayoutManagers (after (callRenderer m s)) = newLayoutManagers s"
proof (cases "m (this_virtualRenderer s)")
  case (Reply cs eo v)
  from deliver_newLayoutManagers [of cs "s\<lparr>this_virtualRenderer := v\<rparr>"] Reply show ?thesis
    by (cases "deliver cs (s\<lparr>this_virtualRenderer := v\<rparr>)"; cases eo)
       (simp_all add: callRenderer_def)
qed

lemma andThen_newLayoutManagers:
  assumes "newLayoutManagers (after r) = X"
    and "\<And>u s'. newLayoutManagers (after (f u s')) = newLayoutManagers s'"
  shows "newLayoutManagers (after (andThen r f)) = X"
  using assms by (cases r) simp_all

lemma initTrackers_newLayoutManagers:
  assumes dp: "dataProvider (props s) = Some dp" and lp: "layoutProvider (props s) = Some lp"
  shows "newLayoutManagers (after (this_initTrackers c s)) =
           newLayoutManagers s
             @ [LayoutManager (Some lp) (this_layout s) (isHorizontal (props s))
                  (this_cachedLayouts s)]"
  unfolding this_initTrackers_def
  apply (simp add: this_assertDependencyPresence_def dp lp Let_def split del: if_split)
  apply (intro andThen_newLayoutManagers)
    apply (simp_all split del: if_split)
   apply (simp_all add: lp)
  done

lemma onSizeChanged_newLayoutManagers:
  assumes "height layout \<noteq> 0" and "width layout \<noteq> 0" and "\<not> this_initComplete s"
    and dp: "dataProvider (props s) = Some dp" and lp: "layoutProvider (props s) = Some lp"
  shows "newLayoutManagers (after (this_onSizeChanged c layout s)) =
           newLayoutManagers s
             @ [LayoutManager (Some lp) \<lparr> height = height layout, width = width layout \<rparr>
                  (isHorizontal (props s)) (this_cachedLayouts s)]"
proof -
  let ?s1 = "s\<lparr>this_layout := \<lparr> height = height layout, width = width layout \<rparr>,
               this_initComplete := True\<rparr>"
  have i: "newLayoutManagers (after (this_initTrackers c ?s1)) =
           newLayoutManagers s
             @ [LayoutManager (Some lp) \<lparr> height = height layout, width = width layout \<rparr>
                  (isHorizontal (props s)) (this_cachedLayouts s)]"
    using initTrackers_newLayoutManagers [of ?s1 dp lp c] dp lp by simp
  show ?thesis
    using assms(1,2,3) i
    by (cases "this_initTrackers c ?s1") (simp_all add: this_onSizeChanged_def Let_def)
qed

lemma componentWillUnmount_saves:
  assumes "contextProvider (props s) = Some cp" and "getUniqueKey cp \<noteq> []"
    and "forceNonDeterministicRendering (props s)"
    and "getLayoutManager c (this_virtualRenderer s)"
  shows "componentWillUnmount c s =
           s\<lparr>props := (props s)\<lparr>contextProvider :=
                Some (save (getUniqueKey cp @ ''_layouts'')
                        (SString (JSON_stringify c (getLayouts c (this_virtualRenderer s))))
                        (save (getUniqueKey cp) (SNumber (getCurrentScrollOffset c s)) cp))\<rparr>\<rparr>"
  using assms by (simp add: componentWillUnmount_def Let_def)

lemma componentWillUnmount_offset_only:
  assumes "contextProvider (props s) = Some cp" and "getUniqueKey cp \<noteq> []"
    and "\<not> (forceNonDeterministicRendering (props s)
            \<and> getLayoutManager c (this_virtualRenderer s))"
  shows "componentWillUnmount c s =
           s\<lparr>props := (props s)\<lparr>contextProvider :=
                Some (save (getUniqueKey cp) (SNumber (getCurrentScrollOffset c s)) cp)\<rparr>\<rparr>"
proof -
  have "(if forceNonDeterministicRendering (props s)
            \<and> getLayoutManager c (this_virtualRenderer s)
         then save (getUniqueKey cp @ ''_layouts'')
                (SString (JSON_stringify c (getLayouts c (this_virtualRenderer s))))
                (save (getUniqueKey cp) (SNumber (getCurrentScrollOffset c s)) cp)
         else save (getUniqueKey cp) (SNumber (getCurrentScrollOffset c s)) cp)
        = save (getUniqueKey cp) (SNumber (getCurrentScrollOffset c s)) cp"
    using assms(3) by (rule if_not_P)
  then show ?thesis
    using assms(1,2) by (simp add: componentWillUnmount_def Let_def split del: if_split)
qed

lemma componentWillUnmount_nothing:
  assumes "contextProvider (props s) = None
           \<or> (contextProvider (props s) = Some cp \<and> getUniqueKey cp = [])"
  shows "componentWillUnmount c s = s"
  using assms by (auto simp add: componentWillUnmount_def Let_def)

lemma RecyclerListView_new_simps [simp]:
  "props (RecyclerListView_new c p) = p"
  "this_cachedLayouts (RecyclerListView_new c p) = None"
  "this_initComplete (RecyclerListView_new c p) = False"
  "newLayoutManagers (RecyclerListView_new c p) = []"
  by (simp_all add: RecyclerListView_new_def)

lemma componentWillMount_restores:
  assumes "contextProvider p = Some cp" and "getUniqueKey cp \<noteq> []"
    and "forceNonDeterministicRendering p"
    and "get (getUniqueKey cp @ ''_layouts'') cp = Some (SString str)"
    and "str \<noteq> []" and "JSON_parse c str = Inr (Some ls)"
  shows "raised (componentWillMount c (RecyclerListView_new c p)) = None
         \<and> this_cachedLayouts (after (componentWillMount c (RecyclerListView_new c p))) = Some ls
         \<and> \<not> this_initComplete (after (componentWillMount c (RecyclerListView_new c p)))
         \<and> newLayoutManagers (after (componentWillMount c (RecyclerListView_new c p))) = []
         \<and> dataProvider (props (after (componentWillMount c (RecyclerListView_new c p))))
             = dataProvider p
         \<and> layoutProvider (props (after (componentWillMount c (RecyclerListView_new c p))))
             = layoutProvider p
         \<and> isHorizontal (props (after (componentWillMount c (RecyclerListView_new c p))))
             = isHorizontal p"
proof -
  let ?s = "RecyclerListView_new c p"
  define s1 where "s1 = (case get (getUniqueKey cp) cp of
                           Some (SNumber offset) \<Rightarrow>
                             if offset > 0 then ?s\<lparr>this_initialOffset := offset\<rparr> else ?s
                         | _ \<Rightarrow> ?s)"
  have s1: "props s1 = p" "this_cachedLayouts s1 = None" "\<not> this_initComplete s1"
      "newLayoutManagers s1 = []"
    by (simp_all add: s1_def split: option.splits Stored.splits)
  have "componentWillMount c ?s =
          Return () (s1\<lparr>this_cachedLayouts := Some ls,
                       props := p\<lparr>contextProvider := Some (remove (getUniqueKey cp) cp)\<rparr>\<rparr>)"
    using assms s1 by (simp add: componentWillMount_def Let_def s1_def [symmetric])
  then show ?thesis using s1 by simp
qed

lemma componentWillMount_without:
  assumes "\<not> forceNonDeterministicRendering p \<or> contextProvider p = None
           \<or> (contextProvider p = Some cp \<and> getUniqueKey cp = [])"
  shows "raised (componentWillMount c (RecyclerListView_new c p)) = None
         \<and> this_cachedLayouts (after (componentWillMount c (RecyclerListView_new c p))) = None
         \<and> \<not> this_initComplete (after (componentWillMount c (RecyclerListView_new c p)))
         \<and> newLayoutManagers (after (componentWillMount c (RecyclerListView_new c p))) = []
         \<and> dataProvider (props (after (componentWillMount c (RecyclerListView_new c p))))
             = dataProvider p
         \<and> layoutProvider (props (after (componentWillMount c (RecyclerListView_new c p))))
             = layoutProvider p
         \<and> isHorizontal (props (after (componentWillMount c (RecyclerListView_new c p))))
             = isHorizontal p"
proof (cases "contextProvider p")
  case None
  then show ?thesis by (simp add: componentWillMount_def)
next
  case (Some cp')
  let ?s = "RecyclerListView_new c p"
  show ?thesis
  proof (cases "getUniqueKey cp' = []")
    case True
    with Some show ?thesis by (simp add: componentWillMount_def Let_def)
  next
    case False
    with Some assms have off: "\<not> forceNonDeterministicRendering p" by auto
    define s1 where "s1 = (case get (getUniqueKey cp') cp' of
                             Some (SNumber offset) \<Rightarrow>
                               if offset > 0 then ?s\<lparr>this_initialOffset := offset\<rparr> else ?s
                           | _ \<Rightarrow> ?s)"
    have s1: "props s1 = p" "this_cachedLayouts s1 = None" "\<not> this_initComplete s1"
        "newLayoutManagers s1 = []"
      by (simp_all add: s1_def split: option.splits Stored.splits)
    have "componentWillMount c ?s =
            Return () (s1\<lparr>props := p\<lparr>contextProvider := Some (remove (getUniqueKey cp') cp')\<rparr>\<rparr>)"
      using Some False off s1 by (simp add: componentWillMount_def Let_def s1_def [symmetric])
    then show ?thesis using s1 by simp
  qed
qed

text \<open>
  Claim C4, as the code has it. The layouts are saved and restored only behind
  the \<^verbatim>\<open>forceNonDeterministicRendering\<close> prop, the context provider and its
  unique key, and they go through \<^verbatim>\<open>JSON\<close>. Throughout, a new list is constructed
  with props \<open>p\<close> that have both providers, mounted, and sized for the first time
  (height and width not zero).

  Restored: let the unmounted list have a context provider with a non-empty
  unique key, the prop set and a renderer holding a layout manager; let
  \<^verbatim>\<open>JSON.stringify\<close> give a non-empty text for its layouts that \<^verbatim>\<open>JSON.parse\<close> reads
  back to the same layouts; let the new list have that context provider and
  the prop set. Then \<^verbatim>\<open>componentWillMount\<close> returns with \<^verbatim>\<open>_cachedLayouts\<close> equal to
  the layouts the old layout manager exported, and the first size change
  constructs exactly one layout manager, handing it those layouts. With the
  import of the specification, that layout manager holds exactly those layouts
  and has no index left to lay out for the unchanged item count.

  Not saved: when the unmounted list has the context provider and key but not
  both the prop and a layout manager, \<^verbatim>\<open>componentWillUnmount\<close> writes the scroll
  offset under the key and nothing else; without a context provider or with an
  empty key it writes nothing.

  Not restored: when the new list has the prop off, or no context provider, or
  an empty key, \<^verbatim>\<open>componentWillMount\<close> returns with \<^verbatim>\<open>_cachedLayouts\<close> empty, the
  one layout manager is constructed with \<^verbatim>\<open>null\<close>, and every index is still to
  be laid out.
\<close>

theorem cached_layouts_round_trip:
  assumes "dataProvider p = Some dp" and "layoutProvider p = Some lp"
    and "height layout \<noteq> 0" and "width layout \<noteq> 0"
  shows
    "let ls = getLayouts c (this_virtualRenderer s);
         mounted = componentWillMount c (RecyclerListView_new c p);
         sized = this_onSizeChanged c layout (after mounted)
     in (contextProvider (props s) = Some cp \<and> getUniqueKey cp \<noteq> []
           \<and> forceNonDeterministicRendering (props s)
           \<and> getLayoutManager c (this_virtualRenderer s)
           \<and> JSON_stringify c ls \<noteq> []
           \<and> JSON_parse c (JSON_stringify c ls) = Inr (Some ls)
           \<and> contextProvider p = contextProvider (props (componentWillUnmount c s))
           \<and> forceNonDeterministicRendering p
         \<longrightarrow> raised mounted = None
             \<and> this_cachedLayouts (after mounted) = Some ls
             \<and> newLayoutManagers (after sized) =
                 [LayoutManager (Some lp) \<lparr> height = height layout, width = width layout \<rparr>
                    (isHorizontal p) (Some ls)]
             \<and> map LayoutEngine_imported (newLayoutManagers (after sized)) = [ls]
             \<and> map (\<lambda>lm. LayoutEngine_unlaid lm (length ls)) (newLayoutManagers (after sized))
                 = [[]])
        \<and> (contextProvider (props s) = Some cp \<and> getUniqueKey cp \<noteq> []
           \<and> \<not> (forceNonDeterministicRendering (props s)
                  \<and> getLayoutManager c (this_virtualRenderer s))
         \<longrightarrow> componentWillUnmount c s =
               s\<lparr>props := (props s)\<lparr>contextProvider :=
                    Some (save (getUniqueKey cp) (SNumber (getCurrentScrollOffset c s)) cp)\<rparr>\<rparr>)
        \<and> (contextProvider (props s) = None
           \<or> (contextProvider (props s) = Some cp \<and> getUniqueKey cp = [])
         \<longrightarrow> componentWillUnmount c s = s)
        \<and> (\<not> forceNonDeterministicRendering p \<or> contextProvider p = None
           \<or> (contextProvider p = Some cp' \<and> getUniqueKey cp' = [])
         \<longrightarrow> raised mounted = None
             \<and> this_cachedLayouts (after mounted) = None
             \<and> newLayoutManagers (after sized) =
                 [LayoutManager (Some lp) \<lparr> height = height layout, width = width layout \<rparr>
                    (isHorizontal p) None]
             \<and> map (\<lambda>lm. LayoutEngine_unlaid lm n) (newLayoutManagers (after sized))
                 = [[0 ..< n]])"
proof -
  let ?L = "getLayouts c (this_virtualRenderer s)"
  let ?k = "getUniqueKey cp"
  let ?m = "componentWillMount c (RecyclerListView_new c p)"
  let ?sized = "this_onSizeChanged c layout (after ?m)"
  let ?dim = "\<lparr> height = height layout, width = width layout \<rparr>"
  have restored: "raised ?m = None \<and> this_cachedLayouts (after ?m) = Some ?L
      \<and> newLayoutManagers (after ?sized) = [LayoutManager (Some lp) ?dim (isHorizontal p) (Some ?L)]"
    if unmounted: "contextProvider (props s) = Some cp" "getUniqueKey cp \<noteq> []"
        "forceNonDeterministicRendering (props s)" "getLayoutManager c (this_virtualRenderer s)"
      and json: "JSON_stringify c ?L \<noteq> []" "JSON_parse c (JSON_stringify c ?L) = Inr (Some ?L)"
      and new: "contextProvider p = contextProvider (props (componentWillUnmount c s))"
        "forceNonDeterministicRendering p"
  proof -
    let ?cp2 = "save (?k @ ''_layouts'') (SString (JSON_stringify c ?L))
                  (save ?k (SNumber (getCurrentScrollOffset c s)) cp)"
    have cp2: "contextProvider p = Some ?cp2"
      using new(1) by (simp add: componentWillUnmount_saves [OF unmounted])
    have key: "getUniqueKey ?cp2 \<noteq> []" using unmounted(2) by (simp add: save_def)
    have g1: "get (getUniqueKey ?cp2 @ ''_layouts'') ?cp2 = Some (SString (JSON_stringify c ?L))"
      by (simp add: get_def save_def)
    note m = componentWillMount_restores [OF cp2 key new(2) g1 json]
    from onSizeChanged_newLayoutManagers [of layout "after ?m" dp lp c] m assms
    show ?thesis by simp
  qed
  have without: "raised ?m = None \<and> this_cachedLayouts (after ?m) = None
      \<and> newLayoutManagers (after ?sized) = [LayoutManager (Some lp) ?dim (isHorizontal p) None]"
    if "\<not> forceNonDeterministicRendering p \<or> contextProvider p = None
        \<or> (contextProvider p = Some cp' \<and> getUniqueKey cp' = [])"
  proof -
    note m = componentWillMount_without [OF that, of c]
    from onSizeChanged_newLayoutManagers [of layout "after ?m" dp lp c] m assms
    show ?thesis by simp
  qed
  have a: "contextProvider (props s) = Some cp \<and> getUniqueKey cp \<noteq> []
           \<and> forceNonDeterministicRendering (props s)
           \<and> getLayoutManager c (this_virtualRenderer s)
           \<and> JSON_stringify c ?L \<noteq> []
           \<and> JSON_parse c (JSON_stringify c ?L) = Inr (Some ?L)
           \<and> contextProvider p = contextProvider (props (componentWillUnmount c s))
           \<and> forceNonDeterministicRendering p
         \<longrightarrow> raised ?m = None
             \<and> this_cachedLayouts (after ?m) = Some ?L
             \<and> newLayoutManagers (after ?sized) =
                 [LayoutManager (Some lp) ?dim (isHorizontal p) (Some ?L)]
             \<and> map LayoutEngine_imported (newLayoutManagers (after ?sized)) = [?L]
             \<and> map (\<lambda>lm. LayoutEngine_unlaid lm (length ?L)) (newLayoutManagers (after ?sized))
                 = [[]]"
    using restored by (simp add: LayoutEngine_unlaid_def)
  have b: "contextProvider (props s) = Some cp \<and> getUniqueKey cp \<noteq> []
           \<and> \<not> (forceNonDeterministicRendering (props s)
                  \<and> getLayoutManager c (this_virtualRenderer s))
         \<longrightarrow> componentWillUnmount c s =
               s\<lparr>props := (props s)\<lparr>contextProvider :=
                    Some (save (getUniqueKey cp) (SNumber (getCurrentScrollOffset c s)) cp)\<rparr>\<rparr>"
    using componentWillUnmount_offset_only [of s cp c] by blast
  have d: "contextProvider (props s) = None
           \<or> (contextProvider (props s) = Some cp \<and> getUniqueKey cp = [])
         \<longrightarrow> componentWillUnmount c s = s"
    using componentWillUnmount_nothing [of s cp c] by blast
  have e: "\<not> forceNonDeterministicRendering p \<or> contextProvider p = None
           \<or> (contextProvider p = Some cp' \<and> getUniqueKey cp' = [])
         \<longrightarrow> raised ?m = None
             \<and> this_cachedLayouts (after ?m) = None
             \<and> newLayoutManagers (after ?sized) =
                 [LayoutManager (Some lp) ?dim (isHorizontal p) None]
             \<and> map (\<lambda>lm. LayoutEngine_unlaid lm n) (newLayoutManagers (after ?sized))
                 = [[0 ..< n]]"
    using without by (simp add: LayoutEngine_unlaid_def)
  from a b d e show ?thesis unfolding Let_def by (intro conjI)
qed

lemma exampleLayouts_whole: "\<forall>r\<in>set exampleLayouts. wholeRect r"
  by (simp add: exampleLayouts_def wholeRect_def)

text \<open>C4 on the example list, whose props set
  \<^verbatim>\<open>forceNonDeterministicRendering\<close> and whose \<^verbatim>\<open>JSON\<close> is the stand-in: the list
  mounted after it has its layouts in \<^verbatim>\<open>_cachedLayouts\<close> and hands them to its
  layout manager. The same list with the prop off saves the scroll offset
  only.\<close>

theorem cached_layouts_round_trip_witness:
  "this_cachedLayouts
     (after (componentWillMount exampleCollaborators
               (RecyclerListView_new exampleCollaborators
                  (props (componentWillUnmount exampleCollaborators exampleInstance)))))
     = Some exampleLayouts
   \<and> newLayoutManagers
       (after (this_onSizeChanged exampleCollaborators \<lparr> height = 120, width = 100 \<rparr>
                 (after (componentWillMount exampleCollaborators
                           (RecyclerListView_new exampleCollaborators
                              (props (componentWillUnmount exampleCollaborators
                                        exampleInstance)))))))
     = [LayoutManager (Some exampleLayoutProvider) \<lparr> height = 120, width = 100 \<rparr> False
          (Some exampleLayouts)]
   \<and> contextProvider (props (componentWillUnmount exampleCollaborators
                                exampleDeterministicInstance))
     = Some \<lparr> getUniqueKey = ''list'', entries = [''list'' \<mapsto> SNumber 0] \<rparr>"
proof -
  let ?cp = "\<lparr> getUniqueKey = ''list'', entries = Map.empty \<rparr>"
  have p: "dataProvider (props (componentWillUnmount exampleCollaborators exampleInstance))
             = Some exampleDataProvider"
      "layoutProvider (props (componentWillUnmount exampleCollaborators exampleInstance))
             = Some exampleLayoutProvider"
      "forceNonDeterministicRendering
         (props (componentWillUnmount exampleCollaborators exampleInstance))"
      "\<not> isHorizontal (props (componentWillUnmount exampleCollaborators exampleInstance))"
    by (simp_all add: componentWillUnmount_def Let_def)
  have json: "JSON_parse_layouts (JSON_stringify_layouts exampleLayouts)
                = Inr (Some exampleLayouts)"
    using exampleLayouts_whole by (rule JSON_round_trip)
  have det: "props exampleDeterministicInstance
               = exampleProps\<lparr>forceNonDeterministicRendering := False\<rparr>"
      "getCurrentScrollOffset exampleCollaborators exampleDeterministicInstance = 0"
    by (simp_all add: exampleDeterministicInstance_def getCurrentScrollOffset_def)
  have restored: "this_cachedLayouts
     (after (componentWillMount exampleCollaborators
               (RecyclerListView_new exampleCollaborators
                  (props (componentWillUnmount exampleCollaborators exampleInstance)))))
     = Some exampleLayouts
   \<and> newLayoutManagers
       (after (this_onSizeChanged exampleCollaborators \<lparr> height = 120, width = 100 \<rparr>
                 (after (componentWillMount exampleCollaborators
                           (RecyclerListView_new exampleCollaborators
                              (props (componentWillUnmount exampleCollaborators
                                        exampleInstance)))))))
     = [LayoutManager (Some exampleLayoutProvider) \<lparr> height = 120, width = 100 \<rparr> False
          (Some exampleLayouts)]"
    using cached_layouts_round_trip
         [where c = exampleCollaborators and s = exampleInstance and cp = ?cp
            and p = "props (componentWillUnmount exampleCollaborators exampleInstance)"
            and dp = exampleDataProvider and lp = exampleLayoutProvider
            and layout = "\<lparr> height = 120, width = 100 \<rparr>", OF p(1,2)]
    by (simp add: p Let_def json JSON_stringify_not_empty)
  have saved: "componentWillUnmount exampleCollaborators exampleDeterministicInstance =
      exampleDeterministicInstance\<lparr>props := (props exampleDeterministicInstance)
        \<lparr>contextProvider := Some (save ''list'' (SNumber 0) ?cp)\<rparr>\<rparr>"
    using cached_layouts_round_trip
         [where c = exampleCollaborators and s = exampleDeterministicInstance and cp = ?cp
            and p = exampleProps and dp = exampleDataProvider and lp = exampleLayoutProvider
            and layout = "\<lparr> height = 120, width = 100 \<rparr>"]
    by (simp add: det Let_def)
  have "contextProvider (props (componentWillUnmount exampleCollaborators
                                  exampleDeterministicInstance))
     = Some \<lparr> getUniqueKey = ''list'', entries = [''list'' \<mapsto> SNumber 0] \<rparr>"
    by (simp add: saved save_def)
  with restored show ?thesis by simp
qed

text \<open>C4 as stated fails: the same list without
  \<^verbatim>\<open>forceNonDeterministicRendering\<close> holds a layout manager with the example
  layouts, yet nothing is saved for them, the list mounted after it has no
  cached layouts and its layout manager is constructed with \<^verbatim>\<open>null\<close>.\<close>

theorem cached_layouts_not_saved_counterexample:
  "getLayoutManager exampleCollaborators (this_virtualRenderer exampleDeterministicInstance)
   \<and> getLayouts exampleCollaborators (this_virtualRenderer exampleDeterministicInstance)
       = exampleLayouts
   \<and> this_cachedLayouts
       (after (componentWillMount exampleCollaborators
                 (RecyclerListView_new exampleCollaborators
                    (props (componentWillUnmount exampleCollaborators
                              exampleDeterministicInstance)))))
       = None
   \<and> newLayoutManagers
       (after (this_onSizeChanged exampleCollaborators \<lparr> height = 120, width = 100 \<rparr>
                 (after (componentWillMount exampleCollaborators
                           (RecyclerListView_new exampleCollaborators
                              (props (componentWillUnmount exampleCollaborators
                                        exampleDeterministicInstance)))))))
     = [LayoutManager (Some exampleLayoutProvider) \<lparr> height = 120, width = 100 \<rparr> False None]"
proof -
  let ?p = "props (componentWillUnmount exampleCollaborators exampleDeterministicInstance)"
  let ?m = "componentWillMount exampleCollaborators
              (RecyclerListView_new exampleCollaborators ?p)"
  have p: "dataProvider ?p = Some exampleDataProvider"
      "layoutProvider ?p = Some exampleLayoutProvider"
      "\<not> forceNonDeterministicRendering ?p" "\<not> isHorizontal ?p"
      "contextProvider ?p \<noteq> None"
    by (simp_all add: componentWillUnmount_def Let_def exampleDeterministicInstance_def)
  have m: "this_cachedLayouts (after ?m) = None" "\<not> this_initComplete (after ?m)"
      "newLayoutManagers (after ?m) = []"
      "dataProvider (props (after ?m)) = Some exampleDataProvider"
      "layoutProvider (props (after ?m)) = Some exampleLayoutProvider"
      "\<not> isHorizontal (props (after ?m))"
    using p
    by (auto simp add: componentWillMount_def Let_def RecyclerListView_new_def
          split: option.splits Stored.splits)
  have r: "getLayoutManager exampleCollaborators (this_virtualRenderer exampleDeterministicInstance)"
      "getLayouts exampleCollaborators (this_virtualRenderer exampleDeterministicInstance)
         = exampleLayouts"
    by (simp_all add: exampleDeterministicInstance_def)
  from onSizeChanged_newLayoutManagers
         [of "\<lparr> height = 120, width = 100 \<rparr>" "after ?m" exampleDataProvider
             exampleLayoutProvider exampleCollaborators] m r
  show ?thesis by simp
qed

end
